theory Spec2Isabelle
  imports Main "HOL-Library.Sublist"
begin

section \<open>Platform values\<close>

text \<open>
  A JavaScript \<^verbatim>\<open>Date\<close> is its time value: milliseconds since the epoch, an \<open>int\<close>.
  A thrown value is an \<open>error\<close>; a computation that may throw returns \<open>error + 'a\<close>
  with \<open>Inl\<close> for the throw. Strings are \<open>string\<close>; \<^verbatim>\<open>${n}\<close> of a non-negative
  integer is its decimal numeral, \<open>show_nat\<close>.
\<close>

type_synonym date = int

datatype error = Error string

datatype log_entry = Info string | Warn string | LogError string error

definition digit_char :: "nat \<Rightarrow> char" where
  "digit_char d = ''0123456789'' ! d"

function show_nat :: "nat \<Rightarrow> string" where
  "show_nat n = (if n < 10 then [digit_char n] else show_nat (n div 10) @ [digit_char (n mod 10)])"
  by pat_completeness auto
termination
  by (relation "measure id") auto

declare show_nat.simps [simp del]

definition nl :: string where
  "nl = [CHR 0x0A]"

definition join :: "string \<Rightarrow> string list \<Rightarrow> string" where
  "join sep xs = (case xs of [] \<Rightarrow> [] | y # ys \<Rightarrow> y @ concat (map (\<lambda>z. sep @ z) ys))"

definition is_space :: "char \<Rightarrow> bool" where
  "is_space c = (c = CHR '' '' \<or> c = CHR 0x09 \<or> c = CHR 0x0A \<or> c = CHR 0x0B \<or> c = CHR 0x0C \<or> c = CHR 0x0D)"

text \<open>
  \<^verbatim>\<open>s.trim()\<close>. Strings are taken as ASCII here, so the white space stripped is the six
  ASCII white-space characters.
\<close>

definition trim :: "string \<Rightarrow> string" where
  "trim s = rev (dropWhile is_space (rev (dropWhile is_space s)))"

text \<open>
  The process's locale and time zone are parameters: the three \<^verbatim>\<open>toLocaleDateString\<close>
  formats the summary service uses, \<^verbatim>\<open>toISOString\<close>, and the zone's offset from UTC in
  milliseconds, which changes with daylight saving. As in ECMAScript's \<^verbatim>\<open>LocalTZA\<close>,
  \<open>tzaUTC t\<close> is the offset in force at the instant \<open>t\<close> and \<open>tzaLocal t\<close> the offset
  that the local time value \<open>t\<close> is read with (at a repeated hour: the offset before the
  change). Time values are taken to be valid and in range (no Invalid Date).
\<close>

record platform =
  tzaUTC :: "date \<Rightarrow> int"
  tzaLocal :: "int \<Rightarrow> int"
  longDate :: "date \<Rightarrow> string"
  shortDate :: "date \<Rightarrow> string"
  shortDateYear :: "date \<Rightarrow> string"
  toISOString :: "date \<Rightarrow> string"

section \<open>Summary service (gemini.service.ts)\<close>

record TaskSummaryInput =
  title :: string
  status :: string
  priority :: string
  project :: string
  dueDate :: "string option"
  createdAt :: string
  updatedAt :: string

record SummaryResult =
  summary :: string
  isAIGenerated :: bool

record Stats =
  created :: nat
  completed :: nat
  inProgress :: nat
  overdue :: nat

text \<open>
  The service object holds \<^verbatim>\<open>model\<close>, null when no API key is configured. The model's
  \<^verbatim>\<open>generateContent(prompt)\<close> followed by \<^verbatim>\<open>response.text()\<close> either yields a text or
  throws. The effects of the service are written to \<open>gemini_io\<close>: the prompts sent to the
  external model, in order, and the lines logged. The record is extensible, so the same
  functions run on the larger state of the report service.
\<close>

record GeminiService =
  model :: "(string \<Rightarrow> error + string) option"

record gemini_io =
  prompts :: "string list"
  logs :: "log_entry list"

definition newGeminiService :: "string \<Rightarrow> (string \<Rightarrow> error + string) \<Rightarrow> GeminiService" where
  "newGeminiService apiKey client =
     (if apiKey \<noteq> [] then \<lparr>model = Some client\<rparr> else \<lparr>model = None\<rparr>)"

definition generateFallbackDailySummary ::
  "string \<Rightarrow> ('a TaskSummaryInput_scheme) list \<Rightarrow> string \<Rightarrow> SummaryResult" where
  "generateFallbackDailySummary userName tasks dateStr =
     (let completed = length (filter (\<lambda>t. status t = ''DONE'') tasks);
          inProgress = length (filter (\<lambda>t. status t = ''IN_PROGRESS'') tasks);
          highPriority = length (filter (\<lambda>t. priority t = ''HIGH'' \<or> priority t = ''CRITICAL'') tasks);
          s = ''Here's your daily summary for '' @ dateStr @ ''. '';
          s = (if length tasks = 0
               then s @ ''You have no tasks assigned for today. Consider reviewing your backlog or checking in with your team.''
               else
                 (let s = s @ ''You have '' @ show_nat (length tasks) @ '' total task''
                            @ (if length tasks = 1 then '''' else ''s'') @ ''. '';
                      s = (if completed > 0
                           then s @ ''Great work completing '' @ show_nat completed @ '' task''
                                  @ (if completed = 1 then '''' else ''s'') @ ''! ''
                           else s);
                      s = (if inProgress > 0
                           then s @ show_nat inProgress @ '' task''
                                  @ (if inProgress = 1 then '' is'' else ''s are'')
                                  @ '' currently in progress. ''
                           else s);
                      s = (if highPriority > 0
                           then s @ ''Note: '' @ show_nat highPriority @ '' high-priority task''
                                  @ (if highPriority = 1 then '''' else ''s'') @ '' need''
                                  @ (if highPriority = 1 then ''s'' else '''') @ '' attention.''
                           else s)
                  in s))
      in \<lparr>summary = s, isAIGenerated = False\<rparr>)"

definition generateFallbackWeeklySummary ::
  "string \<Rightarrow> ('a TaskSummaryInput_scheme) list \<Rightarrow> string \<Rightarrow> string \<Rightarrow> Stats \<Rightarrow> SummaryResult" where
  "generateFallbackWeeklySummary userName tasks startStr endStr stats =
     (let s = ''Weekly summary for '' @ startStr @ '' - '' @ endStr @ ''. '';
          s = (if completed stats > 0
               then s @ ''You completed '' @ show_nat (completed stats) @ '' task''
                      @ (if completed stats = 1 then '''' else ''s'') @ '' this week - nice work! ''
               else s);
          s = (if created stats > 0
               then s @ show_nat (created stats) @ '' new task''
                      @ (if created stats = 1 then '' was'' else ''s were'') @ '' created. ''
               else s);
          s = (if inProgress stats > 0
               then s @ show_nat (inProgress stats) @ '' task''
                      @ (if inProgress stats = 1 then '' is'' else ''s are'')
                      @ '' currently in progress. ''
               else s);
          s = (if overdue stats > 0
               then s @ ''Heads up: '' @ show_nat (overdue stats) @ '' task''
                      @ (if overdue stats = 1 then '' is'' else ''s are'')
                      @ '' overdue and may need immediate attention. ''
               else s);
          s = (if completed stats = 0 \<and> length tasks > 0
               then s @ ''Focus on completing in-progress tasks to maintain momentum.''
               else if length tasks = 0
               then s @ ''No active tasks this week. Check your project backlogs for upcoming work.''
               else s)
      in \<lparr>summary = s, isAIGenerated = False\<rparr>)"

definition buildDailySummaryPrompt ::
  "string \<Rightarrow> ('a TaskSummaryInput_scheme) list \<Rightarrow> string \<Rightarrow> string" where
  "buildDailySummaryPrompt userName tasks dateStr =
     (let taskList = join nl (map (\<lambda>t. ''- \"'' @ title t @ ''\" ('' @ status t @ '', '' @ priority t
                                        @ '' priority, Project: '' @ project t @ '')'') tasks)
      in ''You are a helpful project management assistant. Generate a brief, professional daily summary (max 150 words) for ''
         @ userName @ '' about their tasks on '' @ dateStr @ ''.'' @ nl
         @ nl
         @ ''Tasks:'' @ nl
         @ taskList @ nl
         @ nl
         @ ''Write a natural, encouraging summary that:'' @ nl
         @ ''1. Highlights key accomplishments or focus areas'' @ nl
         @ ''2. Mentions any high-priority or overdue tasks'' @ nl
         @ ''3. Provides a positive yet realistic overview'' @ nl
         @ ''4. Uses professional but friendly tone'' @ nl
         @ nl
         @ ''Do not use bullet points or lists. Write in flowing paragraphs.'')"

definition buildWeeklySummaryPrompt ::
  "string \<Rightarrow> ('a TaskSummaryInput_scheme) list \<Rightarrow> string \<Rightarrow> string \<Rightarrow> Stats \<Rightarrow> string" where
  "buildWeeklySummaryPrompt userName tasks startStr endStr stats =
     (let taskList = join nl (map (\<lambda>t. ''- \"'' @ title t @ ''\" ('' @ status t @ '', '' @ priority t
                                        @ '', Project: '' @ project t @ '')'') (take 30 tasks))
      in ''You are a helpful project management assistant. Generate a concise weekly summary (max 200 words) for ''
         @ userName @ '' covering '' @ startStr @ '' - '' @ endStr @ ''.'' @ nl
         @ nl
         @ ''Weekly Stats:'' @ nl
         @ ''- Tasks Created: '' @ show_nat (created stats) @ nl
         @ ''- Tasks Completed: '' @ show_nat (completed stats) @ nl
         @ ''- Tasks In Progress: '' @ show_nat (inProgress stats) @ nl
         @ ''- Overdue Tasks: '' @ show_nat (overdue stats) @ nl
         @ nl
         @ ''Notable Tasks:'' @ nl
         @ taskList @ nl
         @ nl
         @ ''Write a natural, insightful summary that:'' @ nl
         @ ''1. Celebrates completed work and productivity trends'' @ nl
         @ ''2. Identifies areas needing attention (overdue items)'' @ nl
         @ ''3. Provides encouragement and actionable insights'' @ nl
         @ ''4. Compares workload balance (created vs completed)'' @ nl
         @ nl
         @ ''Do not use bullet points or lists. Write in flowing paragraphs with a professional but motivating tone.'')"

text \<open>
  \<^verbatim>\<open>try { ... } catch (error) { ... }\<close>: the handler runs on the state the body left.
\<close>

definition try_catch ::
  "('s \<Rightarrow> (error + 'a) \<times> 's) \<Rightarrow> (error \<Rightarrow> 's \<Rightarrow> (error + 'a) \<times> 's) \<Rightarrow> 's \<Rightarrow> (error + 'a) \<times> 's" where
  "try_catch body handler s =
     (case body s of
        (Inl e, s') \<Rightarrow> handler e s'
      | (Inr v, s') \<Rightarrow> (Inr v, s'))"

definition generateContent ::
  "(string \<Rightarrow> error + string) \<Rightarrow> string \<Rightarrow> 'b gemini_io_scheme
     \<Rightarrow> (error + string) \<times> 'b gemini_io_scheme" where
  "generateContent m prompt io = (m prompt, io\<lparr>prompts := prompts io @ [prompt]\<rparr>)"

definition generateDailySummary ::
  "platform \<Rightarrow> GeminiService \<Rightarrow> string \<Rightarrow> ('a TaskSummaryInput_scheme) list \<Rightarrow> date
     \<Rightarrow> 'b gemini_io_scheme \<Rightarrow> (error + SummaryResult) \<times> 'b gemini_io_scheme" where
  "generateDailySummary pf svc userName tasks date io =
     (let dateStr = longDate pf date in
      case model svc of
        None \<Rightarrow> (Inr (generateFallbackDailySummary userName tasks dateStr), io)
      | Some m \<Rightarrow>
          if length tasks = 0
          then (Inr (generateFallbackDailySummary userName tasks dateStr), io)
          else
            try_catch
              (\<lambda>io. let prompt = buildDailySummaryPrompt userName tasks dateStr in
                    case generateContent m prompt io of
                      (Inl e, io') \<Rightarrow> (Inl e, io')
                    | (Inr text, io') \<Rightarrow> (Inr \<lparr>summary = trim text, isAIGenerated = True\<rparr>, io'))
              (\<lambda>e io. (Inr (generateFallbackDailySummary userName tasks dateStr),
                        io\<lparr>logs := logs io @ [LogError ''Gemini API error for daily summary:'' e]\<rparr>))
              io)"

definition generateWeeklySummary ::
  "platform \<Rightarrow> GeminiService \<Rightarrow> string \<Rightarrow> ('a TaskSummaryInput_scheme) list \<Rightarrow> date \<Rightarrow> date \<Rightarrow> Stats
     \<Rightarrow> 'b gemini_io_scheme \<Rightarrow> (error + SummaryResult) \<times> 'b gemini_io_scheme" where
  "generateWeeklySummary pf svc userName tasks startDate endDate stats io =
     (let startStr = shortDate pf startDate;
          endStr = shortDateYear pf endDate in
      case model svc of
        None \<Rightarrow> (Inr (generateFallbackWeeklySummary userName tasks startStr endStr stats), io)
      | Some m \<Rightarrow>
          if length tasks = 0
          then (Inr (generateFallbackWeeklySummary userName tasks startStr endStr stats), io)
          else
            try_catch
              (\<lambda>io. let prompt = buildWeeklySummaryPrompt userName tasks startStr endStr stats in
                    case generateContent m prompt io of
                      (Inl e, io') \<Rightarrow> (Inl e, io')
                    | (Inr text, io') \<Rightarrow> (Inr \<lparr>summary = trim text, isAIGenerated = True\<rparr>, io'))
              (\<lambda>e io. (Inr (generateFallbackWeeklySummary userName tasks startStr endStr stats),
                        io\<lparr>logs := logs io @ [LogError ''Gemini API error for weekly summary:'' e]\<rparr>))
              io)"

section \<open>Report service (report.service.ts)\<close>

text \<open>
  Rows of the store, as the queries of the report service return them. A task row carries
  the name of its project (the query's \<^verbatim>\<open>include: { project: { select: { name } } }\<close>).
  Dates of rows are time values.
\<close>

record User =
  u_id :: string
  u_email :: string
  u_name :: string
  u_isVerified :: bool

record Project =
  p_id :: string
  p_ownerId :: string
  p_members :: "string list"

record Task =
  t_id :: string
  t_title :: string
  t_status :: string
  t_priority :: string
  t_projectId :: string
  t_projectName :: string
  t_assigneeId :: "string option"
  t_reporterId :: string
  t_dueDate :: "date option"
  t_createdAt :: date
  t_updatedAt :: date

record TaskSnapshot = TaskSummaryInput +
  snap_id :: string

record ReportData = Stats +
  tasks :: "TaskSnapshot list"

datatype ReportType = DAILY | WEEKLY

record Report =
  r_id :: string
  r_type :: ReportType
  r_summary :: string
  r_data :: ReportData
  r_userId :: string
  r_createdAt :: date

record ReportResult = SummaryResult +
  report_id :: string
  report_type :: ReportType
  data :: ReportData
  report_createdAt :: date

record MailRow =
  row_title :: string
  row_status :: string
  row_project :: string
  row_id :: string

record Mail =
  mail_to :: string
  mail_name :: string
  mail_summary :: string
  mail_stats :: "Stats option"
  mail_rows :: "MailRow list"

text \<open>
  The state the report service acts on: the tables it reads and writes, the wall clock
  (\<^verbatim>\<open>new Date()\<close> reads \<open>clock\<close>; the clock stands still during one call), the mails
  handed to the mailer, and the prompts and log lines of \<open>gemini_io\<close>.
\<close>

record world = gemini_io +
  db_users :: "User list"
  db_projects :: "Project list"
  db_tasks :: "Task list"
  db_reports :: "Report list"
  clock :: date
  outbox :: "Mail list"

definition msPerDay :: int where
  "msPerDay = 86400000"

text \<open>
  The date arithmetic of ECMAScript: \<open>LocalTime\<close> and \<open>UTC\<close> convert between an instant
  and its local time value, \<open>Day\<close> and \<open>TimeWithinDay\<close> split a time value, \<open>MakeDate\<close>
  puts a day number and a time of day together.
\<close>

definition LocalTime :: "platform \<Rightarrow> date \<Rightarrow> int" where
  "LocalTime pf t = t + tzaUTC pf t"

definition UTC :: "platform \<Rightarrow> int \<Rightarrow> date" where
  "UTC pf t = t - tzaLocal pf t"

definition Day :: "int \<Rightarrow> int" where
  "Day t = t div msPerDay"

definition TimeWithinDay :: "int \<Rightarrow> int" where
  "TimeWithinDay t = t mod msPerDay"

definition MakeDate :: "int \<Rightarrow> int \<Rightarrow> int" where
  "MakeDate day time = day * msPerDay + time"

text \<open>
  \<^verbatim>\<open>d.setHours(0, 0, 0, 0)\<close> and \<^verbatim>\<open>d.setHours(23, 59, 59, 999)\<close>: the local day of
  \<open>d\<close> with the time of day replaced (23:59:59.999 is 86399999 ms), read back as an
  instant.
\<close>

definition setHours_0_0_0_0 :: "platform \<Rightarrow> date \<Rightarrow> date" where
  "setHours_0_0_0_0 pf d = UTC pf (MakeDate (Day (LocalTime pf d)) 0)"

definition setHours_23_59_59_999 :: "platform \<Rightarrow> date \<Rightarrow> date" where
  "setHours_23_59_59_999 pf d = UTC pf (MakeDate (Day (LocalTime pf d)) 86399999)"

text \<open>
  \<^verbatim>\<open>d.setDate(d.getDate() - 7)\<close>: the local calendar day seven days earlier, at the same
  local time of day, read back as an instant.
\<close>

definition setDate_minus7 :: "platform \<Rightarrow> date \<Rightarrow> date" where
  "setDate_minus7 pf d =
     UTC pf (MakeDate (Day (LocalTime pf d) - 7) (TimeWithinDay (LocalTime pf d)))"

definition findUniqueUser :: "string \<Rightarrow> world \<Rightarrow> User option" where
  "findUniqueUser userId w = find (\<lambda>u. u_id u = userId) (db_users w)"

definition findProjectIds :: "string \<Rightarrow> world \<Rightarrow> string list" where
  "findProjectIds userId w =
     map p_id (filter (\<lambda>p. p_ownerId p = userId \<or> userId \<in> set (p_members p)) (db_projects w))"

text \<open>\<^verbatim>\<open>orderBy: { updatedAt: 'desc' }\<close>; the order among equal keys is the store's.\<close>

definition findTasks :: "string \<Rightarrow> string list \<Rightarrow> world \<Rightarrow> Task list" where
  "findTasks userId projectIds w =
     rev (sort_key t_updatedAt
       (filter (\<lambda>t. t_projectId t \<in> set projectIds
                    \<and> (t_assigneeId t = Some userId \<or> t_reporterId t = userId)) (db_tasks w)))"

definition snapshot :: "platform \<Rightarrow> Task \<Rightarrow> TaskSnapshot" where
  "snapshot pf t =
     \<lparr>title = t_title t, status = t_status t, priority = t_priority t, project = t_projectName t,
      dueDate = map_option (toISOString pf) (t_dueDate t),
      createdAt = toISOString pf (t_createdAt t), updatedAt = toISOString pf (t_updatedAt t),
      snap_id = t_id t\<rparr>"

text \<open>
  The statistics block, written twice in the source (lines 72--87 and 172--187) with the
  window's bounds under two names.
\<close>

definition calculateStats :: "platform \<Rightarrow> Task list \<Rightarrow> date \<Rightarrow> date \<Rightarrow> date \<Rightarrow> ReportData" where
  "calculateStats pf ts windowStart windowEnd now =
     \<lparr>created = length (filter (\<lambda>t. t_createdAt t \<ge> windowStart \<and> t_createdAt t \<le> windowEnd) ts),
      completed = length (filter (\<lambda>t. t_status t = ''DONE'' \<and> t_updatedAt t \<ge> windowStart
                                          \<and> t_updatedAt t \<le> windowEnd) ts),
      inProgress = length (filter (\<lambda>t. t_status t = ''IN_PROGRESS'') ts),
      overdue = length (filter (\<lambda>t. case t_dueDate t of None \<Rightarrow> False
                                       | Some d \<Rightarrow> d < now \<and> t_status t \<noteq> ''DONE'') ts),
      tasks = map (snapshot pf) ts\<rparr>"

definition summaryInput :: "TaskSnapshot \<Rightarrow> TaskSummaryInput" where
  "summaryInput t =
     \<lparr>title = title t, status = status t, priority = priority t, project = project t,
      dueDate = dueDate t, createdAt = createdAt t, updatedAt = updatedAt t\<rparr>"

text \<open>The store gives a new report its id (here the row count) and its creation time.\<close>

definition createReport :: "ReportType \<Rightarrow> string \<Rightarrow> ReportData \<Rightarrow> string \<Rightarrow> world \<Rightarrow> Report \<times> world" where
  "createReport ty text d userId w =
     (let report = \<lparr>r_id = show_nat (length (db_reports w)), r_type = ty, r_summary = text,
                     r_data = d, r_userId = userId, r_createdAt = clock w\<rparr>
      in (report, w\<lparr>db_reports := db_reports w @ [report]\<rparr>))"

definition generateDailyReport ::
  "platform \<Rightarrow> GeminiService \<Rightarrow> string \<Rightarrow> date option \<Rightarrow> world \<Rightarrow> (error + ReportResult) \<times> world" where
  "generateDailyReport pf svc userId date w =
     (let targetDate = (case date of Some d \<Rightarrow> d | None \<Rightarrow> clock w);
          startOfDay = setHours_0_0_0_0 pf targetDate;
          endOfDay = setHours_23_59_59_999 pf targetDate
      in case findUniqueUser userId w of
           None \<Rightarrow> (Inl (Error ''User not found''), w)
         | Some user \<Rightarrow>
             (let projectIds = findProjectIds userId w;
                  ts = findTasks userId projectIds w;
                  now = clock w;
                  d = calculateStats pf ts startOfDay endOfDay now
              in case generateDailySummary pf svc (u_name user) (map summaryInput (tasks d)) targetDate w of
                   (Inl e, w') \<Rightarrow> (Inl e, w')
                 | (Inr summaryResult, w') \<Rightarrow>
                     (case createReport DAILY (summary summaryResult) d userId w' of
                        (report, w'') \<Rightarrow>
                          (Inr \<lparr>summary = summary summaryResult,
                                isAIGenerated = isAIGenerated summaryResult,
                                report_id = r_id report, report_type = r_type report,
                                data = d, report_createdAt = r_createdAt report\<rparr>,
                           w''\<lparr>logs := logs w'' @ [Info (''Daily report generated for '' @ u_email user)]\<rparr>))))"

definition generateWeeklyReport ::
  "platform \<Rightarrow> GeminiService \<Rightarrow> string \<Rightarrow> date option \<Rightarrow> world \<Rightarrow> (error + ReportResult) \<times> world" where
  "generateWeeklyReport pf svc userId weekEndDate w =
     (let endDate0 = (case weekEndDate of Some d \<Rightarrow> d | None \<Rightarrow> clock w);
          startDate = setHours_0_0_0_0 pf (setDate_minus7 pf endDate0);
          endDate = setHours_23_59_59_999 pf endDate0
      in case findUniqueUser userId w of
           None \<Rightarrow> (Inl (Error ''User not found''), w)
         | Some user \<Rightarrow>
             (let projectIds = findProjectIds userId w;
                  ts = findTasks userId projectIds w;
                  now = clock w;
                  d = calculateStats pf ts startDate endDate now
              in case generateWeeklySummary pf svc (u_name user) (map summaryInput (tasks d)) startDate endDate
                        \<lparr>created = created d, completed = completed d,
                         inProgress = inProgress d, overdue = overdue d\<rparr> w of
                   (Inl e, w') \<Rightarrow> (Inl e, w')
                 | (Inr summaryResult, w') \<Rightarrow>
                     (case createReport WEEKLY (summary summaryResult) d userId w' of
                        (report, w'') \<Rightarrow>
                          (Inr \<lparr>summary = summary summaryResult,
                                isAIGenerated = isAIGenerated summaryResult,
                                report_id = r_id report, report_type = r_type report,
                                data = d, report_createdAt = r_createdAt report\<rparr>,
                           w''\<lparr>logs := logs w'' @ [Info (''Weekly report generated for '' @ u_email user)]\<rparr>))))"

text \<open>\<^verbatim>\<open>s.replace('_', ' ')\<close> replaces the first underscore only.\<close>

fun replace_underscore :: "string \<Rightarrow> string" where
  "replace_underscore [] = []"
| "replace_underscore (c # cs) = (if c = CHR ''_'' then CHR '' '' # cs else c # replace_underscore cs)"

definition mailRow :: "TaskSnapshot \<Rightarrow> MailRow" where
  "mailRow t = \<lparr>row_title = title t, row_status = replace_underscore (status t),
                row_project = project t, row_id = snap_id t\<rparr>"

text \<open>
  The mailer (email.service.ts) renders the HTML and hands it to the transport; it catches
  every transport failure and answers with a flag, which the report service drops. The
  model keeps the arguments of each call in \<open>outbox\<close>.
\<close>

definition sendDailySummary :: "string \<Rightarrow> string \<Rightarrow> string \<Rightarrow> MailRow list \<Rightarrow> world \<Rightarrow> world" where
  "sendDailySummary to nm text rows w =
     w\<lparr>outbox := outbox w @ [\<lparr>mail_to = to, mail_name = nm, mail_summary = text,
                               mail_stats = None, mail_rows = rows\<rparr>]\<rparr>"

definition sendWeeklySummary :: "string \<Rightarrow> string \<Rightarrow> string \<Rightarrow> Stats \<Rightarrow> MailRow list \<Rightarrow> world \<Rightarrow> world" where
  "sendWeeklySummary to nm text stats rows w =
     w\<lparr>outbox := outbox w @ [\<lparr>mail_to = to, mail_name = nm, mail_summary = text,
                               mail_stats = Some stats, mail_rows = take 20 rows\<rparr>]\<rparr>"

definition sendDailyReportEmail ::
  "platform \<Rightarrow> GeminiService \<Rightarrow> string \<Rightarrow> world \<Rightarrow> (error + unit) \<times> world" where
  "sendDailyReportEmail pf svc userId w =
     (case generateDailyReport pf svc userId None w of
        (Inl e, w') \<Rightarrow> (Inl e, w')
      | (Inr report, w') \<Rightarrow>
          (case findUniqueUser userId w' of
             None \<Rightarrow> (Inr (), w')
           | Some user \<Rightarrow>
               (Inr (), sendDailySummary (u_email user) (u_name user) (summary report)
                          (map mailRow (take 10 (tasks (data report)))) w')))"

definition sendWeeklyReportEmail ::
  "platform \<Rightarrow> GeminiService \<Rightarrow> string \<Rightarrow> world \<Rightarrow> (error + unit) \<times> world" where
  "sendWeeklyReportEmail pf svc userId w =
     (case generateWeeklyReport pf svc userId None w of
        (Inl e, w') \<Rightarrow> (Inl e, w')
      | (Inr report, w') \<Rightarrow>
          (case findUniqueUser userId w' of
             None \<Rightarrow> (Inr (), w')
           | Some user \<Rightarrow>
               (Inr (), sendWeeklySummary (u_email user) (u_name user) (summary report)
                          \<lparr>created = created (data report), completed = completed (data report),
                           inProgress = inProgress (data report), overdue = overdue (data report)\<rparr>
                          (map mailRow (take 20 (tasks (data report)))) w')))"

section \<open>Scheduler (scheduler.service.ts)\<close>

text \<open>
  The scheduler calls the report service through its two send operations. They are a
  parameter here, as a test's mock makes them; \<open>reportService\<close> is the real object.
\<close>

record ReportService =
  sendDaily :: "string \<Rightarrow> world \<Rightarrow> (error + unit) \<times> world"
  sendWeekly :: "string \<Rightarrow> world \<Rightarrow> (error + unit) \<times> world"

definition reportService :: "platform \<Rightarrow> GeminiService \<Rightarrow> ReportService" where
  "reportService pf svc =
     \<lparr>sendDaily = sendDailyReportEmail pf svc, sendWeekly = sendWeeklyReportEmail pf svc\<rparr>"

record Counts =
  success :: nat
  failed :: nat

text \<open>
  One pass of the body of \<^verbatim>\<open>for (const user of users)\<close>, on the loop's variables
  \<open>(success, failed)\<close> and the state.
\<close>

definition dailyIteration :: "ReportService \<Rightarrow> User \<Rightarrow> nat \<times> nat \<times> world \<Rightarrow> nat \<times> nat \<times> world" where
  "dailyIteration rs user st =
     snd (try_catch
       (\<lambda>(success, failed, w).
          case sendDaily rs (u_id user) w of
            (Inl e, w') \<Rightarrow> (Inl e, (success, failed, w'))
          | (Inr _, w') \<Rightarrow>
              (Inr (), (success + 1, failed,
                        w'\<lparr>logs := logs w' @ [Info (''Daily report sent to '' @ u_email user)]\<rparr>)))
       (\<lambda>e (success, failed, w).
          (Inr (), (success, failed + 1,
                    w\<lparr>logs := logs w @ [LogError (''Failed to send daily report to '' @ u_email user @ '':'') e]\<rparr>)))
       st)"

definition weeklyIteration :: "ReportService \<Rightarrow> User \<Rightarrow> nat \<times> nat \<times> world \<Rightarrow> nat \<times> nat \<times> world" where
  "weeklyIteration rs user st =
     snd (try_catch
       (\<lambda>(success, failed, w).
          case sendWeekly rs (u_id user) w of
            (Inl e, w') \<Rightarrow> (Inl e, (success, failed, w'))
          | (Inr _, w') \<Rightarrow>
              (Inr (), (success + 1, failed,
                        w'\<lparr>logs := logs w' @ [Info (''Weekly report sent to '' @ u_email user)]\<rparr>)))
       (\<lambda>e (success, failed, w).
          (Inr (), (success, failed + 1,
                    w\<lparr>logs := logs w @ [LogError (''Failed to send weekly report to '' @ u_email user @ '':'') e]\<rparr>)))
       st)"

definition findVerifiedUsers :: "world \<Rightarrow> User list" where
  "findVerifiedUsers w = filter u_isVerified (db_users w)"

definition generateDailyReportsForAllUsers :: "ReportService \<Rightarrow> world \<Rightarrow> Counts \<times> world" where
  "generateDailyReportsForAllUsers rs w =
     (let users = findVerifiedUsers w in
      case fold (dailyIteration rs) users (0, 0, w) of
        (s, f, w') \<Rightarrow>
          (\<lparr>success = s, failed = f\<rparr>,
           w'\<lparr>logs := logs w' @ [Info (''Daily reports completed: '' @ show_nat s @ '' success, ''
                                        @ show_nat f @ '' failed'')]\<rparr>))"

definition generateWeeklyReportsForAllUsers :: "ReportService \<Rightarrow> world \<Rightarrow> Counts \<times> world" where
  "generateWeeklyReportsForAllUsers rs w =
     (let users = findVerifiedUsers w in
      case fold (weeklyIteration rs) users (0, 0, w) of
        (s, f, w') \<Rightarrow>
          (\<lparr>success = s, failed = f\<rparr>,
           w'\<lparr>logs := logs w' @ [Info (''Weekly reports completed: '' @ show_nat s @ '' success, ''
                                        @ show_nat f @ '' failed'')]\<rparr>))"

text \<open>
  The run as the specification describes it, to compare the loops with: for each user in
  order the send is called on the state the pass before left, whatever the earlier sends
  did; its result is kept and one line is logged, for a return or for a throw. The
  result is the list of the sends' results and the state after the last pass.
\<close>

definition dailyLogLine :: "User \<Rightarrow> error + unit \<Rightarrow> log_entry" where
  "dailyLogLine user r =
     (case r of
        Inl e \<Rightarrow> LogError (''Failed to send daily report to '' @ u_email user @ '':'') e
      | Inr _ \<Rightarrow> Info (''Daily report sent to '' @ u_email user))"

definition weeklyLogLine :: "User \<Rightarrow> error + unit \<Rightarrow> log_entry" where
  "weeklyLogLine user r =
     (case r of
        Inl e \<Rightarrow> LogError (''Failed to send weekly report to '' @ u_email user @ '':'') e
      | Inr _ \<Rightarrow> Info (''Weekly report sent to '' @ u_email user))"

fun attemptAll ::
  "(string \<Rightarrow> world \<Rightarrow> (error + unit) \<times> world) \<Rightarrow> (User \<Rightarrow> error + unit \<Rightarrow> log_entry)
     \<Rightarrow> User list \<Rightarrow> world \<Rightarrow> (error + unit) list \<times> world" where
  "attemptAll send line [] w = ([], w)"
| "attemptAll send line (u # us) w =
     (case send (u_id u) w of
        (r, w1) \<Rightarrow>
          (case attemptAll send line us (w1\<lparr>logs := logs w1 @ [line u r]\<rparr>) of
             (rs, w2) \<Rightarrow> (r # rs, w2)))"

subsection \<open>Calendar triggers\<close>

text \<open>
  node-cron keeps every task that \<^verbatim>\<open>cron.schedule\<close> created and runs, at each minute, the
  callbacks of those that are running and whose expression matches. The registry is the
  list of tasks; a task's handle is its position. The scheduler's two callbacks are
  \<open>DailyReports\<close> and \<open>WeeklyReports\<close>.
\<close>

datatype job = DailyReports | WeeklyReports

record ScheduledTask =
  expression :: string
  callback :: job
  running :: bool

record SchedulerService =
  dailyJob :: "nat option"
  weeklyJob :: "nat option"

definition cron_schedule :: "string \<Rightarrow> job \<Rightarrow> ScheduledTask list \<Rightarrow> nat \<times> ScheduledTask list" where
  "cron_schedule expr cb reg =
     (length reg, reg @ [\<lparr>expression = expr, callback = cb, running = True\<rparr>])"

definition task_stop :: "nat \<Rightarrow> ScheduledTask list \<Rightarrow> ScheduledTask list" where
  "task_stop h reg = (if h < length reg then reg[h := (reg ! h)\<lparr>running := False\<rparr>] else reg)"

definition start :: "SchedulerService \<times> ScheduledTask list \<times> world \<Rightarrow> SchedulerService \<times> ScheduledTask list \<times> world" where
  "start st =
     (case st of (this, reg, w) \<Rightarrow>
        (case cron_schedule ''0 18 * * *'' DailyReports reg of
           (h1, reg1) \<Rightarrow>
             (case cron_schedule ''0 18 * * 5'' WeeklyReports reg1 of
                (h2, reg2) \<Rightarrow>
                  (this\<lparr>dailyJob := Some h1, weeklyJob := Some h2\<rparr>, reg2,
                   w\<lparr>logs := logs w @ [Info ''Scheduler started: Daily reports at 6 PM, Weekly reports on Fridays at 6 PM'']\<rparr>))))"

definition stop :: "SchedulerService \<times> ScheduledTask list \<times> world \<Rightarrow> SchedulerService \<times> ScheduledTask list \<times> world" where
  "stop st =
     (case st of (this, reg, w) \<Rightarrow>
        (let (this1, reg1) = (case dailyJob this of
                                Some h \<Rightarrow> (this\<lparr>dailyJob := None\<rparr>, task_stop h reg)
                              | None \<Rightarrow> (this, reg));
             (this2, reg2) = (case weeklyJob this1 of
                                Some h \<Rightarrow> (this1\<lparr>weeklyJob := None\<rparr>, task_stop h reg1)
                              | None \<Rightarrow> (this1, reg1))
         in (this2, reg2, w\<lparr>logs := logs w @ [Info ''Scheduler stopped'']\<rparr>)))"

definition runJob :: "ReportService \<Rightarrow> job \<Rightarrow> world \<Rightarrow> world" where
  "runJob rs j w =
     (case j of
        DailyReports \<Rightarrow>
          snd (generateDailyReportsForAllUsers rs
                 (w\<lparr>logs := logs w @ [Info ''Starting daily report generation for all users'']\<rparr>))
      | WeeklyReports \<Rightarrow>
          snd (generateWeeklyReportsForAllUsers rs
                 (w\<lparr>logs := logs w @ [Info ''Starting weekly report generation for all users'']\<rparr>)))"

text \<open>
  One firing: \<open>matches\<close> tells which expressions match the minute. The callbacks run
  one after the other, in the order of registration; the real callbacks are asynchronous
  and their sends may interleave, which changes the order of the sends and not how many
  each user gets.
\<close>

definition cron_fire :: "ReportService \<Rightarrow> (string \<Rightarrow> bool) \<Rightarrow> ScheduledTask list \<Rightarrow> world \<Rightarrow> world" where
  "cron_fire rs matches reg w =
     fold (\<lambda>t w. if running t \<and> matches (expression t) then runJob rs (callback t) w else w) reg w"

section \<open>Example inputs\<close>

text \<open>
  The zone of the example is New York's around the end of daylight saving in 2026: the
  offset is -4 h before 2026-11-01T06:00:00Z (1793512800000) and -5 h from then on; a
  local time value before 02:00 of that day (1793498400000) is read with -4 h.
\<close>

definition demo_platform :: platform where
  "demo_platform =
     \<lparr>tzaUTC = (\<lambda>t. if t < 1793512800000 then - 14400000 else - 18000000),
      tzaLocal = (\<lambda>t. if t < 1793498400000 then - 14400000 else - 18000000),
      longDate = (\<lambda>d. ''Monday, November 2, 2026''),
      shortDate = (\<lambda>d. ''Oct 26''),
      shortDateYear = (\<lambda>d. ''Nov 2, 2026''),
      toISOString = (\<lambda>d. ''2026-11-02T12:30:00.000Z'')\<rparr>"

definition demo_input :: "string \<Rightarrow> string \<Rightarrow> string \<Rightarrow> TaskSummaryInput" where
  "demo_input ttl st pr =
     \<lparr>title = ttl, status = st, priority = pr, project = ''Website'', dueDate = None,
      createdAt = ''2026-10-30T09:00:00.000Z'', updatedAt = ''2026-11-02T12:30:00.000Z''\<rparr>"

definition three_inputs :: "TaskSummaryInput list" where
  "three_inputs =
     [demo_input ''Write docs'' ''DONE'' ''LOW'',
      demo_input ''Fix login'' ''IN_PROGRESS'' ''MEDIUM'',
      demo_input ''Ship build'' ''DONE'' ''MEDIUM'']"

definition failing_service :: GeminiService where
  "failing_service = \<lparr>model = Some (\<lambda>prompt. Inl (Error ''503 Service Unavailable''))\<rparr>"

definition quiet_io :: gemini_io where
  "quiet_io = \<lparr>prompts = [], logs = []\<rparr>"

definition demo_user :: "string \<Rightarrow> bool \<Rightarrow> User" where
  "demo_user i v = \<lparr>u_id = i, u_email = i @ ''@example.com'', u_name = i, u_isVerified = v\<rparr>"

definition demo_task :: "string \<Rightarrow> string \<Rightarrow> date option \<Rightarrow> date \<Rightarrow> Task" where
  "demo_task i st due upd =
     \<lparr>t_id = i, t_title = ''Task '' @ i, t_status = st, t_priority = ''MEDIUM'',
      t_projectId = ''p1'', t_projectName = ''Website'', t_assigneeId = Some ''A'',
      t_reporterId = ''B'', t_dueDate = due, t_createdAt = 1000, t_updatedAt = upd\<rparr>"

text \<open>
  The clock reads 2026-11-02T12:30:00Z (1793622600000), 07:30 local time. The week ending
  that day runs from 2026-10-26 00:00 local time (1792987200000, still daylight saving)
  to the last millisecond of 2026-11-02 local time (1793681999999). Task t1 is overdue
  and open; t2 is overdue but done, completed at 00:30 local time on 2026-10-26; t3 has
  no due date; t4 was completed at the last millisecond of the week and t5 one
  millisecond later.
\<close>

definition demo_world :: world where
  "demo_world =
     \<lparr>prompts = [], logs = [],
      db_users = [demo_user ''A'' True, demo_user ''B'' True, demo_user ''D'' False, demo_user ''C'' True],
      db_projects = [\<lparr>p_id = ''p1'', p_ownerId = ''B'', p_members = [''A'', ''C'']\<rparr>],
      db_tasks = [demo_task ''t1'' ''TODO'' (Some 1793000000000) 1793100000000,
                  demo_task ''t2'' ''DONE'' (Some 1793000000000) 1792989000000,
                  demo_task ''t3'' ''IN_PROGRESS'' None 1793300000000,
                  demo_task ''t4'' ''DONE'' None 1793681999999,
                  demo_task ''t5'' ''DONE'' None 1793682000000],
      db_reports = [],
      clock = 1793622600000,
      outbox = []\<rparr>"

text \<open>A report service whose sends record the call and throw for one user.\<close>

definition mock_send :: "string \<Rightarrow> string \<Rightarrow> world \<Rightarrow> (error + unit) \<times> world" where
  "mock_send bad userId w =
     (if userId = bad then Inl (Error ''send failed'') else Inr (),
      w\<lparr>outbox := outbox w @ [\<lparr>mail_to = userId, mail_name = [], mail_summary = [],
                                 mail_stats = None, mail_rows = []\<rparr>]\<rparr>)"

definition mockReportService :: "string \<Rightarrow> ReportService" where
  "mockReportService bad = \<lparr>sendDaily = mock_send bad, sendWeekly = mock_send bad\<rparr>"

text \<open>
  A scheduler as constructed, and two minutes of the calendar: 18:00 on a day that is not
  a Friday, and 18:00 on a Friday.
\<close>

definition newSchedulerService :: SchedulerService where
  "newSchedulerService = \<lparr>dailyJob = None, weeklyJob = None\<rparr>"

definition daily_minute :: "string \<Rightarrow> bool" where
  "daily_minute expr = (expr = ''0 18 * * *'')"

definition friday_minute :: "string \<Rightarrow> bool" where
  "friday_minute expr = (expr = ''0 18 * * *'' \<or> expr = ''0 18 * * 5'')"

section \<open>Properties of the summary service\<close>

lemma show_nat_1: "show_nat 1 = ''1''"
  by code_simp

lemma show_nat_2: "show_nat 2 = ''2''"
  by code_simp

lemma show_nat_3: "show_nat 3 = ''3''"
  by code_simp

lemma show_nat_5: "show_nat 5 = ''5''"
  by code_simp

lemma show_nat_Suc_0: "show_nat (Suc 0) = [CHR 0x31]"
  using show_nat_1 by simp

text \<open>
  C1. With a model configured and a task list that is not empty, a completion call that
  throws is caught: the daily and the weekly summary both return (\<open>Inr\<close>, never the
  error) the deterministic fallback for the same inputs, whose \<open>isAIGenerated\<close> is
  false. The prompt has been sent and the error is logged.
\<close>

theorem completion_error_falls_back:
  assumes configured: "model svc = Some m"
    and nonempty: "ts \<noteq> []"
  shows "(m (buildDailySummaryPrompt userName ts (longDate pf date)) = Inl e \<longrightarrow>
            generateDailySummary pf svc userName ts date io
              = (Inr (generateFallbackDailySummary userName ts (longDate pf date)),
                 io\<lparr>prompts := prompts io @ [buildDailySummaryPrompt userName ts (longDate pf date)],
                    logs := logs io @ [LogError ''Gemini API error for daily summary:'' e]\<rparr>)
            \<and> isAIGenerated (generateFallbackDailySummary userName ts (longDate pf date)) = False)
       \<and> (m (buildWeeklySummaryPrompt userName ts (shortDate pf startDate) (shortDateYear pf endDate) stats) = Inl e' \<longrightarrow>
            generateWeeklySummary pf svc userName ts startDate endDate stats io
              = (Inr (generateFallbackWeeklySummary userName ts (shortDate pf startDate) (shortDateYear pf endDate) stats),
                 io\<lparr>prompts := prompts io @ [buildWeeklySummaryPrompt userName ts (shortDate pf startDate) (shortDateYear pf endDate) stats],
                    logs := logs io @ [LogError ''Gemini API error for weekly summary:'' e']\<rparr>)
            \<and> isAIGenerated (generateFallbackWeeklySummary userName ts (shortDate pf startDate) (shortDateYear pf endDate) stats) = False)"
proof (intro conjI impI)
  assume "m (buildDailySummaryPrompt userName ts (longDate pf date)) = Inl e"
  with configured nonempty
  show "generateDailySummary pf svc userName ts date io
      = (Inr (generateFallbackDailySummary userName ts (longDate pf date)),
         io\<lparr>prompts := prompts io @ [buildDailySummaryPrompt userName ts (longDate pf date)],
            logs := logs io @ [LogError ''Gemini API error for daily summary:'' e]\<rparr>)"
    by (simp add: generateDailySummary_def try_catch_def generateContent_def Let_def)
next
  assume "m (buildWeeklySummaryPrompt userName ts (shortDate pf startDate) (shortDateYear pf endDate) stats) = Inl e'"
  with configured nonempty
  show "generateWeeklySummary pf svc userName ts startDate endDate stats io
      = (Inr (generateFallbackWeeklySummary userName ts (shortDate pf startDate) (shortDateYear pf endDate) stats),
         io\<lparr>prompts := prompts io @ [buildWeeklySummaryPrompt userName ts (shortDate pf startDate) (shortDateYear pf endDate) stats],
            logs := logs io @ [LogError ''Gemini API error for weekly summary:'' e']\<rparr>)"
    by (simp add: generateWeeklySummary_def try_catch_def generateContent_def Let_def)
qed (simp_all add: generateFallbackDailySummary_def generateFallbackWeeklySummary_def Let_def)

theorem completion_error_falls_back_witness:
  "model failing_service = Some (\<lambda>prompt. Inl (Error ''503 Service Unavailable''))
   \<and> three_inputs \<noteq> []
   \<and> fst (generateDailySummary demo_platform failing_service ''Ann'' three_inputs 0 quiet_io)
       = Inr \<lparr>summary = ''Here's your daily summary for Monday, November 2, 2026. You have 3 total tasks. Great work completing 2 tasks! 1 task is currently in progress. '',
              isAIGenerated = False\<rparr>
   \<and> logs (snd (generateDailySummary demo_platform failing_service ''Ann'' three_inputs 0 quiet_io))
       = [LogError ''Gemini API error for daily summary:'' (Error ''503 Service Unavailable'')]
   \<and> fst (generateWeeklySummary demo_platform failing_service ''Ann'' three_inputs 0 0
             \<lparr>created = 5, completed = 0, inProgress = 2, overdue = 1\<rparr> quiet_io)
       = Inr \<lparr>summary = ''Weekly summary for Oct 26 - Nov 2, 2026. 5 new tasks were created. 2 tasks are currently in progress. Heads up: 1 task is overdue and may need immediate attention. Focus on completing in-progress tasks to maintain momentum.'',
              isAIGenerated = False\<rparr>"
proof -
  have c: "model failing_service = Some (\<lambda>prompt. Inl (Error ''503 Service Unavailable''))"
    by (simp add: failing_service_def)
  have n: "three_inputs \<noteq> []"
    by (simp add: three_inputs_def)
  note t = completion_error_falls_back [where svc = failing_service and ts = three_inputs
      and userName = "''Ann''" and pf = demo_platform and date = 0 and startDate = 0 and endDate = 0
      and e = "Error ''503 Service Unavailable''" and e' = "Error ''503 Service Unavailable''"
      and stats = "\<lparr>created = 5, completed = 0, inProgress = 2, overdue = 1\<rparr>" and io = quiet_io, OF c n]
  have d: "generateFallbackDailySummary ''Ann'' three_inputs (longDate demo_platform 0)
      = \<lparr>summary = ''Here's your daily summary for Monday, November 2, 2026. You have 3 total tasks. Great work completing 2 tasks! 1 task is currently in progress. '',
              isAIGenerated = False\<rparr>"
    by code_simp
  have w: "generateFallbackWeeklySummary ''Ann'' three_inputs (shortDate demo_platform 0) (shortDateYear demo_platform 0)
       \<lparr>created = 5, completed = 0, inProgress = 2, overdue = 1\<rparr>
      = \<lparr>summary = ''Weekly summary for Oct 26 - Nov 2, 2026. 5 new tasks were created. 2 tasks are currently in progress. Heads up: 1 task is overdue and may need immediate attention. Focus on completing in-progress tasks to maintain momentum.'',
              isAIGenerated = False\<rparr>"
    by code_simp
  from t c n d w show ?thesis
    by (simp add: quiet_io_def)
qed

text \<open>
  C4. With an empty task list the daily and the weekly summary return the deterministic
  fallback, whatever the service's configuration, and leave the state as it was: no
  prompt is sent to the external model. The same holds for any task list when no model
  is configured. The fallback's \<open>isAIGenerated\<close> is false.
\<close>

theorem empty_or_unconfigured_short_circuit:
  "generateDailySummary pf svc userName [] date io
     = (Inr (generateFallbackDailySummary userName [] (longDate pf date)), io)
   \<and> generateWeeklySummary pf svc userName [] startDate endDate stats io
     = (Inr (generateFallbackWeeklySummary userName [] (shortDate pf startDate) (shortDateYear pf endDate) stats), io)
   \<and> generateDailySummary pf \<lparr>model = None\<rparr> userName ts date io
     = (Inr (generateFallbackDailySummary userName ts (longDate pf date)), io)
   \<and> generateWeeklySummary pf \<lparr>model = None\<rparr> userName ts startDate endDate stats io
     = (Inr (generateFallbackWeeklySummary userName ts (shortDate pf startDate) (shortDateYear pf endDate) stats), io)
   \<and> isAIGenerated (generateFallbackDailySummary userName ts dateStr) = False
   \<and> isAIGenerated (generateFallbackWeeklySummary userName ts startStr endStr stats) = False"
  by (simp add: generateDailySummary_def generateWeeklySummary_def Let_def
        generateFallbackDailySummary_def generateFallbackWeeklySummary_def split: option.splits)

text \<open>
  C8. The daily fallback's first sentence carries the formatted date. For no tasks the
  rest is the one sentence saying there are no tasks, and none of the other clauses.
  Otherwise the rest states the total, then the completed clause, the in-progress clause
  and the high-priority attention clause, each present exactly when its count is
  positive. For three tasks, two done, one in progress and none of high or critical
  priority, the rest is the total of 3, the completed clause for 2 tasks and
  ``1 task is currently in progress'', with no attention clause.
\<close>

theorem daily_fallback_template:
  "summary (generateFallbackDailySummary userName ts dateStr) =
     ''Here's your daily summary for '' @ dateStr @ ''. '' @
     (if ts = []
      then ''You have no tasks assigned for today. Consider reviewing your backlog or checking in with your team.''
      else ''You have '' @ show_nat (length ts) @ '' total task'' @ (if length ts = 1 then '''' else ''s'') @ ''. ''
        @ (if 0 < length (filter (\<lambda>t. status t = ''DONE'') ts)
           then ''Great work completing '' @ show_nat (length (filter (\<lambda>t. status t = ''DONE'') ts)) @ '' task''
                @ (if length (filter (\<lambda>t. status t = ''DONE'') ts) = 1 then '''' else ''s'') @ ''! ''
           else '''')
        @ (if 0 < length (filter (\<lambda>t. status t = ''IN_PROGRESS'') ts)
           then show_nat (length (filter (\<lambda>t. status t = ''IN_PROGRESS'') ts)) @ '' task''
                @ (if length (filter (\<lambda>t. status t = ''IN_PROGRESS'') ts) = 1 then '' is'' else ''s are'')
                @ '' currently in progress. ''
           else '''')
        @ (if 0 < length (filter (\<lambda>t. priority t = ''HIGH'' \<or> priority t = ''CRITICAL'') ts)
           then ''Note: '' @ show_nat (length (filter (\<lambda>t. priority t = ''HIGH'' \<or> priority t = ''CRITICAL'') ts))
                @ '' high-priority task''
                @ (if length (filter (\<lambda>t. priority t = ''HIGH'' \<or> priority t = ''CRITICAL'') ts) = 1 then '''' else ''s'')
                @ '' need''
                @ (if length (filter (\<lambda>t. priority t = ''HIGH'' \<or> priority t = ''CRITICAL'') ts) = 1 then ''s'' else '''')
                @ '' attention.''
           else ''''))
   \<and> (\<exists>rest. summary (generateFallbackDailySummary userName [] dateStr)
                 = ''Here's your daily summary for '' @ dateStr @ ''. '' @ rest
             \<and> sublist ''no tasks'' rest
             \<and> \<not> sublist ''total'' rest \<and> \<not> sublist ''completing'' rest
             \<and> \<not> sublist ''in progress'' rest \<and> \<not> sublist ''attention'' rest)
   \<and> (length ts = 3
        \<and> length (filter (\<lambda>t. status t = ''DONE'') ts) = 2
        \<and> length (filter (\<lambda>t. status t = ''IN_PROGRESS'') ts) = 1
        \<and> length (filter (\<lambda>t. priority t = ''HIGH'' \<or> priority t = ''CRITICAL'') ts) = 0
       \<longrightarrow> (\<exists>rest. summary (generateFallbackDailySummary userName ts dateStr)
                      = ''Here's your daily summary for '' @ dateStr @ ''. '' @ rest
                  \<and> rest = ''You have 3 total tasks. Great work completing 2 tasks! 1 task is currently in progress. ''
                  \<and> sublist ''3 total'' rest
                  \<and> sublist ''completing 2 tasks'' rest
                  \<and> sublist ''1 task is currently in progress'' rest
                  \<and> \<not> sublist ''attention'' rest))"
proof (intro conjI impI)
  show "summary (generateFallbackDailySummary userName ts dateStr) =
     ''Here's your daily summary for '' @ dateStr @ ''. '' @
     (if ts = []
      then ''You have no tasks assigned for today. Consider reviewing your backlog or checking in with your team.''
      else ''You have '' @ show_nat (length ts) @ '' total task'' @ (if length ts = 1 then '''' else ''s'') @ ''. ''
        @ (if 0 < length (filter (\<lambda>t. status t = ''DONE'') ts)
           then ''Great work completing '' @ show_nat (length (filter (\<lambda>t. status t = ''DONE'') ts)) @ '' task''
                @ (if length (filter (\<lambda>t. status t = ''DONE'') ts) = 1 then '''' else ''s'') @ ''! ''
           else '''')
        @ (if 0 < length (filter (\<lambda>t. status t = ''IN_PROGRESS'') ts)
           then show_nat (length (filter (\<lambda>t. status t = ''IN_PROGRESS'') ts)) @ '' task''
                @ (if length (filter (\<lambda>t. status t = ''IN_PROGRESS'') ts) = 1 then '' is'' else ''s are'')
                @ '' currently in progress. ''
           else '''')
        @ (if 0 < length (filter (\<lambda>t. priority t = ''HIGH'' \<or> priority t = ''CRITICAL'') ts)
           then ''Note: '' @ show_nat (length (filter (\<lambda>t. priority t = ''HIGH'' \<or> priority t = ''CRITICAL'') ts))
                @ '' high-priority task''
                @ (if length (filter (\<lambda>t. priority t = ''HIGH'' \<or> priority t = ''CRITICAL'') ts) = 1 then '''' else ''s'')
                @ '' need''
                @ (if length (filter (\<lambda>t. priority t = ''HIGH'' \<or> priority t = ''CRITICAL'') ts) = 1 then ''s'' else '''')
                @ '' attention.''
           else ''''))"
    unfolding generateFallbackDailySummary_def Let_def
    by (simp del: filter_False)
next
  have none: "sublist ''no tasks'' ''You have no tasks assigned for today. Consider reviewing your backlog or checking in with your team.''
     \<and> \<not> sublist ''total'' ''You have no tasks assigned for today. Consider reviewing your backlog or checking in with your team.''
     \<and> \<not> sublist ''completing'' ''You have no tasks assigned for today. Consider reviewing your backlog or checking in with your team.''
     \<and> \<not> sublist ''in progress'' ''You have no tasks assigned for today. Consider reviewing your backlog or checking in with your team.''
     \<and> \<not> sublist ''attention'' ''You have no tasks assigned for today. Consider reviewing your backlog or checking in with your team.''"
    by code_simp
  have "summary (generateFallbackDailySummary userName [] dateStr)
      = ''Here's your daily summary for '' @ dateStr @ ''. ''
        @ ''You have no tasks assigned for today. Consider reviewing your backlog or checking in with your team.''"
    by (simp add: generateFallbackDailySummary_def)
  with none show "\<exists>rest. summary (generateFallbackDailySummary userName [] dateStr)
                 = ''Here's your daily summary for '' @ dateStr @ ''. '' @ rest
             \<and> sublist ''no tasks'' rest
             \<and> \<not> sublist ''total'' rest \<and> \<not> sublist ''completing'' rest
             \<and> \<not> sublist ''in progress'' rest \<and> \<not> sublist ''attention'' rest"
    by blast
next
  assume counts: "length ts = 3
        \<and> length (filter (\<lambda>t. status t = ''DONE'') ts) = 2
        \<and> length (filter (\<lambda>t. status t = ''IN_PROGRESS'') ts) = 1
        \<and> length (filter (\<lambda>t. priority t = ''HIGH'' \<or> priority t = ''CRITICAL'') ts) = 0"
  have facts: "sublist ''3 total'' ''You have 3 total tasks. Great work completing 2 tasks! 1 task is currently in progress. ''
     \<and> sublist ''completing 2 tasks'' ''You have 3 total tasks. Great work completing 2 tasks! 1 task is currently in progress. ''
     \<and> sublist ''1 task is currently in progress'' ''You have 3 total tasks. Great work completing 2 tasks! 1 task is currently in progress. ''
     \<and> \<not> sublist ''attention'' ''You have 3 total tasks. Great work completing 2 tasks! 1 task is currently in progress. ''"
    by code_simp
  from counts have "summary (generateFallbackDailySummary userName ts dateStr)
      = ''Here's your daily summary for '' @ dateStr @ ''. ''
        @ ''You have 3 total tasks. Great work completing 2 tasks! 1 task is currently in progress. ''"
    unfolding generateFallbackDailySummary_def Let_def
    by (simp add: show_nat_Suc_0 show_nat_2 show_nat_3 del: filter_False)
  with facts show "\<exists>rest. summary (generateFallbackDailySummary userName ts dateStr)
                      = ''Here's your daily summary for '' @ dateStr @ ''. '' @ rest
                  \<and> rest = ''You have 3 total tasks. Great work completing 2 tasks! 1 task is currently in progress. ''
                  \<and> sublist ''3 total'' rest
                  \<and> sublist ''completing 2 tasks'' rest
                  \<and> sublist ''1 task is currently in progress'' rest
                  \<and> \<not> sublist ''attention'' rest"
    by blast
qed

theorem daily_fallback_template_witness:
  "length three_inputs = 3
   \<and> length (filter (\<lambda>t. status t = ''DONE'') three_inputs) = 2
   \<and> length (filter (\<lambda>t. status t = ''IN_PROGRESS'') three_inputs) = 1
   \<and> length (filter (\<lambda>t. priority t = ''HIGH'' \<or> priority t = ''CRITICAL'') three_inputs) = 0
   \<and> summary (generateFallbackDailySummary ''Ann'' three_inputs ''Monday, November 2, 2026'')
       = ''Here's your daily summary for Monday, November 2, 2026. You have 3 total tasks. Great work completing 2 tasks! 1 task is currently in progress. ''"
proof -
  have h: "length three_inputs = 3
   \<and> length (filter (\<lambda>t. status t = ''DONE'') three_inputs) = 2
   \<and> length (filter (\<lambda>t. status t = ''IN_PROGRESS'') three_inputs) = 1
   \<and> length (filter (\<lambda>t. priority t = ''HIGH'' \<or> priority t = ''CRITICAL'') three_inputs) = 0"
    by (simp add: three_inputs_def demo_input_def)
  from daily_fallback_template [of "''Ann''" three_inputs "''Monday, November 2, 2026''"] h
  have "\<exists>rest. summary (generateFallbackDailySummary ''Ann'' three_inputs ''Monday, November 2, 2026'')
                      = ''Here's your daily summary for '' @ ''Monday, November 2, 2026'' @ ''. '' @ rest
                  \<and> rest = ''You have 3 total tasks. Great work completing 2 tasks! 1 task is currently in progress. ''"
    by blast
  with h show ?thesis
    by simp
qed

text \<open>
  C9. The weekly fallback opens with the date range, then has the clauses for the
  completed, created, in-progress and overdue counts, in that order, each present exactly
  when its count is positive, and closes with the momentum sentence when nothing was
  completed and the task list is not empty, with the backlog sentence when the task list
  is empty, and with nothing otherwise. For the counts created 5, completed 0, in
  progress 2, overdue 1 and a task list that is not empty, the text has the overdue
  clause and the momentum sentence.
\<close>

theorem weekly_fallback_template:
  "summary (generateFallbackWeeklySummary userName ts startStr endStr stats) =
     ''Weekly summary for '' @ startStr @ '' - '' @ endStr @ ''. ''
     @ (if 0 < completed stats
        then ''You completed '' @ show_nat (completed stats) @ '' task''
             @ (if completed stats = 1 then '''' else ''s'') @ '' this week - nice work! ''
        else '''')
     @ (if 0 < created stats
        then show_nat (created stats) @ '' new task''
             @ (if created stats = 1 then '' was'' else ''s were'') @ '' created. ''
        else '''')
     @ (if 0 < inProgress stats
        then show_nat (inProgress stats) @ '' task''
             @ (if inProgress stats = 1 then '' is'' else ''s are'') @ '' currently in progress. ''
        else '''')
     @ (if 0 < overdue stats
        then ''Heads up: '' @ show_nat (overdue stats) @ '' task''
             @ (if overdue stats = 1 then '' is'' else ''s are'')
             @ '' overdue and may need immediate attention. ''
        else '''')
     @ (if completed stats = 0 \<and> ts \<noteq> []
        then ''Focus on completing in-progress tasks to maintain momentum.''
        else if ts = []
        then ''No active tasks this week. Check your project backlogs for upcoming work.''
        else '''')
   \<and> (ts \<noteq> [] \<longrightarrow>
        summary (generateFallbackWeeklySummary userName ts startStr endStr
                   \<lparr>created = 5, completed = 0, inProgress = 2, overdue = 1\<rparr>)
          = ''Weekly summary for '' @ startStr @ '' - '' @ endStr @ ''. ''
            @ ''5 new tasks were created. 2 tasks are currently in progress. ''
            @ ''Heads up: 1 task is overdue and may need immediate attention. ''
            @ ''Focus on completing in-progress tasks to maintain momentum.'')"
proof (intro conjI impI)
  show "summary (generateFallbackWeeklySummary userName ts startStr endStr stats) =
     ''Weekly summary for '' @ startStr @ '' - '' @ endStr @ ''. ''
     @ (if 0 < completed stats
        then ''You completed '' @ show_nat (completed stats) @ '' task''
             @ (if completed stats = 1 then '''' else ''s'') @ '' this week - nice work! ''
        else '''')
     @ (if 0 < created stats
        then show_nat (created stats) @ '' new task''
             @ (if created stats = 1 then '' was'' else ''s were'') @ '' created. ''
        else '''')
     @ (if 0 < inProgress stats
        then show_nat (inProgress stats) @ '' task''
             @ (if inProgress stats = 1 then '' is'' else ''s are'') @ '' currently in progress. ''
        else '''')
     @ (if 0 < overdue stats
        then ''Heads up: '' @ show_nat (overdue stats) @ '' task''
             @ (if overdue stats = 1 then '' is'' else ''s are'')
             @ '' overdue and may need immediate attention. ''
        else '''')
     @ (if completed stats = 0 \<and> ts \<noteq> []
        then ''Focus on completing in-progress tasks to maintain momentum.''
        else if ts = []
        then ''No active tasks this week. Check your project backlogs for upcoming work.''
        else '''')"
    unfolding generateFallbackWeeklySummary_def Let_def
    by simp
next
  assume "ts \<noteq> []"
  then show "summary (generateFallbackWeeklySummary userName ts startStr endStr
                   \<lparr>created = 5, completed = 0, inProgress = 2, overdue = 1\<rparr>)
          = ''Weekly summary for '' @ startStr @ '' - '' @ endStr @ ''. ''
            @ ''5 new tasks were created. 2 tasks are currently in progress. ''
            @ ''Heads up: 1 task is overdue and may need immediate attention. ''
            @ ''Focus on completing in-progress tasks to maintain momentum.''"
    unfolding generateFallbackWeeklySummary_def Let_def
    by (simp add: show_nat_Suc_0 show_nat_2 show_nat_5)
qed

theorem weekly_fallback_template_witness:
  "three_inputs \<noteq> []
   \<and> summary (generateFallbackWeeklySummary ''Ann'' three_inputs ''Oct 26'' ''Nov 2, 2026''
                \<lparr>created = 5, completed = 0, inProgress = 2, overdue = 1\<rparr>)
       = ''Weekly summary for Oct 26 - Nov 2, 2026. 5 new tasks were created. 2 tasks are currently in progress. Heads up: 1 task is overdue and may need immediate attention. Focus on completing in-progress tasks to maintain momentum.''"
proof -
  have h: "three_inputs \<noteq> []"
    by (simp add: three_inputs_def)
  from weekly_fallback_template [of "''Ann''" three_inputs "''Oct 26''" "''Nov 2, 2026''"] h
  have "summary (generateFallbackWeeklySummary ''Ann'' three_inputs ''Oct 26'' ''Nov 2, 2026''
                   \<lparr>created = 5, completed = 0, inProgress = 2, overdue = 1\<rparr>)
          = ''Weekly summary for '' @ ''Oct 26'' @ '' - '' @ ''Nov 2, 2026'' @ ''. ''
            @ ''5 new tasks were created. 2 tasks are currently in progress. ''
            @ ''Heads up: 1 task is overdue and may need immediate attention. ''
            @ ''Focus on completing in-progress tasks to maintain momentum.''"
    by blast
  with h show ?thesis
    by simp
qed

text \<open>
  C10. The deterministic daily and weekly fallbacks do not depend on the user's name: two
  calls that differ in \<open>userName\<close> only return the same text and the same flag.
\<close>

theorem fallback_ignores_userName:
  "generateFallbackDailySummary userName1 ts dateStr = generateFallbackDailySummary userName2 ts dateStr
   \<and> generateFallbackWeeklySummary userName1 ts startStr endStr stats
       = generateFallbackWeeklySummary userName2 ts startStr endStr stats"
  by (simp add: generateFallbackDailySummary_def generateFallbackWeeklySummary_def)

section \<open>Properties of the report service\<close>

lemma generateDailySummary_returns:
  "\<exists>s io'. generateDailySummary pf svc userName ts date io = (Inr s, io')"
  by (auto simp: generateDailySummary_def try_catch_def generateContent_def Let_def
      split: option.splits sum.splits)

lemma generateWeeklySummary_returns:
  "\<exists>s io'. generateWeeklySummary pf svc userName ts startDate endDate stats io = (Inr s, io')"
  by (auto simp: generateWeeklySummary_def try_catch_def generateContent_def Let_def
      split: option.splits sum.splits)

lemma generateDailySummary_keeps_users:
  "generateDailySummary pf svc userName ts date w = (res, w') \<Longrightarrow> db_users w' = db_users w"
  by (auto simp: generateDailySummary_def try_catch_def generateContent_def Let_def
      split: option.splits sum.splits if_splits)

lemma generateWeeklySummary_keeps_users:
  "generateWeeklySummary pf svc userName ts startDate endDate stats w = (res, w') \<Longrightarrow> db_users w' = db_users w"
  by (auto simp: generateWeeklySummary_def try_catch_def generateContent_def Let_def
      split: option.splits sum.splits if_splits)

lemma generateDailyReport_missing:
  "findUniqueUser userId w = None \<Longrightarrow>
     generateDailyReport pf svc userId date w = (Inl (Error ''User not found''), w)"
  by (simp add: generateDailyReport_def Let_def)

lemma generateWeeklyReport_missing:
  "findUniqueUser userId w = None \<Longrightarrow>
     generateWeeklyReport pf svc userId date w = (Inl (Error ''User not found''), w)"
  by (simp add: generateWeeklyReport_def Let_def)

lemma generateDailyReport_found:
  assumes "findUniqueUser userId w = Some user"
  shows "\<exists>r w'. generateDailyReport pf svc userId date w = (Inr r, w')
           \<and> data r = calculateStats pf (findTasks userId (findProjectIds userId w) w)
                         (setHours_0_0_0_0 pf (case date of Some d \<Rightarrow> d | None \<Rightarrow> clock w))
                         (setHours_23_59_59_999 pf (case date of Some d \<Rightarrow> d | None \<Rightarrow> clock w))
                         (clock w)
           \<and> db_users w' = db_users w"
proof -
  let ?target = "case date of Some d \<Rightarrow> d | None \<Rightarrow> clock w"
  let ?d = "calculateStats pf (findTasks userId (findProjectIds userId w) w)
              (setHours_0_0_0_0 pf ?target) (setHours_23_59_59_999 pf ?target) (clock w)"
  obtain s w1 where s: "generateDailySummary pf svc (u_name user) (map summaryInput (tasks ?d)) ?target w = (Inr s, w1)"
    using generateDailySummary_returns by blast
  from s have "db_users w1 = db_users w"
    by (rule generateDailySummary_keeps_users)
  with assms s show ?thesis
    by (simp add: generateDailyReport_def Let_def createReport_def)
qed

lemma generateWeeklyReport_found:
  assumes "findUniqueUser userId w = Some user"
  shows "\<exists>r w'. generateWeeklyReport pf svc userId date w = (Inr r, w')
           \<and> data r = calculateStats pf (findTasks userId (findProjectIds userId w) w)
                         (setHours_0_0_0_0 pf (setDate_minus7 pf (case date of Some d \<Rightarrow> d | None \<Rightarrow> clock w)))
                         (setHours_23_59_59_999 pf (case date of Some d \<Rightarrow> d | None \<Rightarrow> clock w))
                         (clock w)
           \<and> db_users w' = db_users w"
proof -
  let ?target = "case date of Some d \<Rightarrow> d | None \<Rightarrow> clock w"
  let ?d = "calculateStats pf (findTasks userId (findProjectIds userId w) w)
              (setHours_0_0_0_0 pf (setDate_minus7 pf ?target)) (setHours_23_59_59_999 pf ?target) (clock w)"
  obtain s w1 where s: "generateWeeklySummary pf svc (u_name user) (map summaryInput (tasks ?d))
        (setHours_0_0_0_0 pf (setDate_minus7 pf ?target)) (setHours_23_59_59_999 pf ?target)
        \<lparr>created = created ?d, completed = completed ?d, inProgress = inProgress ?d, overdue = overdue ?d\<rparr> w = (Inr s, w1)"
    using generateWeeklySummary_returns by blast
  from s have "db_users w1 = db_users w"
    by (rule generateWeeklySummary_keeps_users)
  with assms s show ?thesis
    by (simp add: generateWeeklyReport_def Let_def createReport_def)
qed

lemma generateDailyReport_data:
  assumes "generateDailyReport pf svc userId date w = (Inr r, w')"
  shows "data r = calculateStats pf (findTasks userId (findProjectIds userId w) w)
                         (setHours_0_0_0_0 pf (case date of Some d \<Rightarrow> d | None \<Rightarrow> clock w))
                         (setHours_23_59_59_999 pf (case date of Some d \<Rightarrow> d | None \<Rightarrow> clock w))
                         (clock w)"
proof (cases "findUniqueUser userId w")
  case None
  with assms show ?thesis
    by (simp add: generateDailyReport_missing)
next
  case (Some user)
  from generateDailyReport_found [OF Some, of pf svc date] assms show ?thesis
    by auto
qed

lemma generateWeeklyReport_data:
  assumes "generateWeeklyReport pf svc userId date w = (Inr r, w')"
  shows "data r = calculateStats pf (findTasks userId (findProjectIds userId w) w)
                         (setHours_0_0_0_0 pf (setDate_minus7 pf (case date of Some d \<Rightarrow> d | None \<Rightarrow> clock w)))
                         (setHours_23_59_59_999 pf (case date of Some d \<Rightarrow> d | None \<Rightarrow> clock w))
                         (clock w)"
proof (cases "findUniqueUser userId w")
  case None
  with assms show ?thesis
    by (simp add: generateWeeklyReport_missing)
next
  case (Some user)
  from generateWeeklyReport_found [OF Some, of pf svc date] assms show ?thesis
    by auto
qed

lemma overdue_calculateStats:
  "overdue (calculateStats pf ts windowStart windowEnd now)
     = length (filter (\<lambda>t. t_dueDate t \<noteq> None \<and> the (t_dueDate t) < now \<and> t_status t \<noteq> ''DONE'') ts)"
proof -
  have "filter (\<lambda>t. case t_dueDate t of None \<Rightarrow> False | Some d \<Rightarrow> d < now \<and> t_status t \<noteq> ''DONE'') ts
      = filter (\<lambda>t. t_dueDate t \<noteq> None \<and> the (t_dueDate t) < now \<and> t_status t \<noteq> ''DONE'') ts"
    by (rule filter_cong) (auto split: option.splits)
  then show ?thesis
    by (simp add: calculateStats_def)
qed

lemma demo_user_A: "findUniqueUser ''A'' demo_world = Some (demo_user ''A'' True)"
  by (simp add: findUniqueUser_def demo_world_def demo_user_def)

lemma demo_tasks_A:
  "findTasks ''A'' (findProjectIds ''A'' demo_world) demo_world =
     [demo_task ''t5'' ''DONE'' None 1793682000000,
      demo_task ''t4'' ''DONE'' None 1793681999999,
      demo_task ''t3'' ''IN_PROGRESS'' None 1793300000000,
      demo_task ''t1'' ''TODO'' (Some 1793000000000) 1793100000000,
      demo_task ''t2'' ''DONE'' (Some 1793000000000) 1792989000000]"
  by (simp add: findTasks_def findProjectIds_def demo_world_def demo_task_def)

lemma local_midnight:
  "MakeDate (Day t) 0 mod msPerDay = 0
   \<and> MakeDate (Day t) 0 \<le> t \<and> t < MakeDate (Day t) 0 + msPerDay"
proof -
  have "MakeDate (Day t) 0 = t - t mod msPerDay"
    by (simp add: MakeDate_def Day_def minus_mod_eq_div_mult)
  moreover have "0 \<le> t mod msPerDay" and "t mod msPerDay < msPerDay"
    by (simp_all add: msPerDay_def)
  moreover have "MakeDate (Day t) 0 mod msPerDay = 0"
    by (simp add: MakeDate_def)
  ultimately show ?thesis
    by simp
qed

lemma local_end_of_day:
  "MakeDate (Day t) 86399999 mod msPerDay = msPerDay - 1
   \<and> t \<le> MakeDate (Day t) 86399999 \<and> MakeDate (Day t) 86399999 < t + msPerDay"
proof -
  have eq: "MakeDate (Day t) 86399999 = t - t mod msPerDay + (msPerDay - 1)"
    by (simp add: MakeDate_def Day_def minus_mod_eq_div_mult) (simp add: msPerDay_def)
  have "0 \<le> t mod msPerDay" and "t mod msPerDay < msPerDay"
    by (simp_all add: msPerDay_def)
  moreover have "MakeDate (Day t) 86399999 mod msPerDay = msPerDay - 1"
    by (simp add: MakeDate_def) (simp add: msPerDay_def)
  ultimately show ?thesis
    using eq by simp
qed

lemma seven_days_earlier:
  "MakeDate (Day t - 7) (TimeWithinDay t) = t - 7 * msPerDay"
proof -
  have "MakeDate (Day t - 7) (TimeWithinDay t) = (t div msPerDay) * msPerDay + t mod msPerDay - 7 * msPerDay"
    by (simp add: MakeDate_def Day_def TimeWithinDay_def algebra_simps)
  then show ?thesis
    by simp
qed

lemma week_start_le_end:
  assumes bounded: "\<forall>x. \<bar>tzaUTC pf x\<bar> \<le> msPerDay \<and> \<bar>tzaLocal pf x\<bar> \<le> msPerDay"
  shows "setHours_0_0_0_0 pf (setDate_minus7 pf E) \<le> setHours_23_59_59_999 pf E"
proof -
  let ?l = "LocalTime pf E"
  let ?s = "setDate_minus7 pf E"
  let ?m = "MakeDate (Day (LocalTime pf ?s)) 0"
  let ?e = "MakeDate (Day ?l) 86399999"
  have s: "?s = (?l - 7 * msPerDay) - tzaLocal pf (?l - 7 * msPerDay)"
    by (simp add: setDate_minus7_def UTC_def seven_days_earlier)
  have b1: "\<bar>tzaLocal pf (?l - 7 * msPerDay)\<bar> \<le> msPerDay"
    and b2: "\<bar>tzaUTC pf ?s\<bar> \<le> msPerDay"
    and b3: "\<bar>tzaLocal pf ?m\<bar> \<le> msPerDay"
    and b4: "\<bar>tzaLocal pf ?e\<bar> \<le> msPerDay"
    using bounded by blast+
  have m: "?m \<le> LocalTime pf ?s"
    using local_midnight [of "LocalTime pf ?s"] by simp
  have e: "?l \<le> ?e"
    using local_end_of_day [of ?l] by simp
  have ls: "LocalTime pf ?s = ?s + tzaUTC pf ?s"
    by (simp add: LocalTime_def)
  have start: "setHours_0_0_0_0 pf ?s = ?m - tzaLocal pf ?m"
    by (simp add: setHours_0_0_0_0_def UTC_def)
  have "end": "setHours_23_59_59_999 pf E = ?e - tzaLocal pf ?e"
    by (simp add: setHours_23_59_59_999_def UTC_def)
  have d: "(0::int) < msPerDay"
    by (simp add: msPerDay_def)
  from s b1 b2 b3 b4 m e ls start "end" d show ?thesis
    by linarith
qed

lemma demo_user_ghost: "findUniqueUser ''ghost'' demo_world = None"
  by (simp add: findUniqueUser_def demo_world_def demo_user_def)

text \<open>
  C3. The overdue count is the number of tasks that have a due date, whose due date is
  strictly before the time of generation and whose status is not DONE. The window's
  bounds play no part: two daily (or two weekly) reports for the same user in the same
  state, asked for any two dates, carry the same overdue count.
\<close>

theorem overdue_ignores_window:
  "overdue (calculateStats pf ts windowStart windowEnd now)
     = length (filter (\<lambda>t. t_dueDate t \<noteq> None \<and> the (t_dueDate t) < now \<and> t_status t \<noteq> ''DONE'') ts)
   \<and> overdue (calculateStats pf ts windowStart windowEnd now)
     = overdue (calculateStats pf ts windowStart' windowEnd' now)
   \<and> (generateDailyReport pf svc userId date w = (Inr r, w') \<longrightarrow>
        overdue (data r)
          = length (filter (\<lambda>t. t_dueDate t \<noteq> None \<and> the (t_dueDate t) < clock w \<and> t_status t \<noteq> ''DONE'')
                      (findTasks userId (findProjectIds userId w) w)))
   \<and> (generateWeeklyReport pf svc userId date w = (Inr r, w') \<longrightarrow>
        overdue (data r)
          = length (filter (\<lambda>t. t_dueDate t \<noteq> None \<and> the (t_dueDate t) < clock w \<and> t_status t \<noteq> ''DONE'')
                      (findTasks userId (findProjectIds userId w) w)))
   \<and> (generateDailyReport pf svc userId date1 w = (Inr r1, w1)
        \<and> generateDailyReport pf svc userId date2 w = (Inr r2, w2) \<longrightarrow>
        overdue (data r1) = overdue (data r2))
   \<and> (generateWeeklyReport pf svc userId date1 w = (Inr r1, w1)
        \<and> generateWeeklyReport pf svc userId date2 w = (Inr r2, w2) \<longrightarrow>
        overdue (data r1) = overdue (data r2))"
proof (intro conjI impI)
  show "overdue (calculateStats pf ts windowStart windowEnd now)
     = length (filter (\<lambda>t. t_dueDate t \<noteq> None \<and> the (t_dueDate t) < now \<and> t_status t \<noteq> ''DONE'') ts)"
    by (rule overdue_calculateStats)
next
  show "overdue (calculateStats pf ts windowStart windowEnd now)
     = overdue (calculateStats pf ts windowStart' windowEnd' now)"
    by (simp add: overdue_calculateStats)
next
  assume "generateDailyReport pf svc userId date w = (Inr r, w')"
  then show "overdue (data r)
          = length (filter (\<lambda>t. t_dueDate t \<noteq> None \<and> the (t_dueDate t) < clock w \<and> t_status t \<noteq> ''DONE'')
                      (findTasks userId (findProjectIds userId w) w))"
    by (simp add: generateDailyReport_data overdue_calculateStats)
next
  assume "generateWeeklyReport pf svc userId date w = (Inr r, w')"
  then show "overdue (data r)
          = length (filter (\<lambda>t. t_dueDate t \<noteq> None \<and> the (t_dueDate t) < clock w \<and> t_status t \<noteq> ''DONE'')
                      (findTasks userId (findProjectIds userId w) w))"
    by (simp add: generateWeeklyReport_data overdue_calculateStats)
next
  assume "generateDailyReport pf svc userId date1 w = (Inr r1, w1)
        \<and> generateDailyReport pf svc userId date2 w = (Inr r2, w2)"
  then have "data r1 = calculateStats pf (findTasks userId (findProjectIds userId w) w)
                         (setHours_0_0_0_0 pf (case date1 of Some d \<Rightarrow> d | None \<Rightarrow> clock w))
                         (setHours_23_59_59_999 pf (case date1 of Some d \<Rightarrow> d | None \<Rightarrow> clock w))
                         (clock w)"
    and "data r2 = calculateStats pf (findTasks userId (findProjectIds userId w) w)
                         (setHours_0_0_0_0 pf (case date2 of Some d \<Rightarrow> d | None \<Rightarrow> clock w))
                         (setHours_23_59_59_999 pf (case date2 of Some d \<Rightarrow> d | None \<Rightarrow> clock w))
                         (clock w)"
    by (blast dest: generateDailyReport_data)+
  then show "overdue (data r1) = overdue (data r2)"
    by (simp add: overdue_calculateStats)
next
  assume "generateWeeklyReport pf svc userId date1 w = (Inr r1, w1)
        \<and> generateWeeklyReport pf svc userId date2 w = (Inr r2, w2)"
  then have "data r1 = calculateStats pf (findTasks userId (findProjectIds userId w) w)
                         (setHours_0_0_0_0 pf (setDate_minus7 pf (case date1 of Some d \<Rightarrow> d | None \<Rightarrow> clock w)))
                         (setHours_23_59_59_999 pf (case date1 of Some d \<Rightarrow> d | None \<Rightarrow> clock w))
                         (clock w)"
    and "data r2 = calculateStats pf (findTasks userId (findProjectIds userId w) w)
                         (setHours_0_0_0_0 pf (setDate_minus7 pf (case date2 of Some d \<Rightarrow> d | None \<Rightarrow> clock w)))
                         (setHours_23_59_59_999 pf (case date2 of Some d \<Rightarrow> d | None \<Rightarrow> clock w))
                         (clock w)"
    by (blast dest: generateWeeklyReport_data)+
  then show "overdue (data r1) = overdue (data r2)"
    by (simp add: overdue_calculateStats)
qed

theorem overdue_ignores_window_witness:
  "\<exists>r1 w1 r2 w2 r3 w3 r4 w4.
      generateDailyReport demo_platform \<lparr>model = None\<rparr> ''A'' (Some 0) demo_world = (Inr r1, w1)
    \<and> generateDailyReport demo_platform \<lparr>model = None\<rparr> ''A'' None demo_world = (Inr r2, w2)
    \<and> generateWeeklyReport demo_platform \<lparr>model = None\<rparr> ''A'' (Some 0) demo_world = (Inr r3, w3)
    \<and> generateWeeklyReport demo_platform \<lparr>model = None\<rparr> ''A'' None demo_world = (Inr r4, w4)
    \<and> overdue (data r1) = 1 \<and> overdue (data r2) = 1
    \<and> overdue (data r3) = 1 \<and> overdue (data r4) = 1"
proof -
  obtain r1 w1 where g1: "generateDailyReport demo_platform \<lparr>model = None\<rparr> ''A'' (Some 0) demo_world = (Inr r1, w1)"
    using generateDailyReport_found [OF demo_user_A] by blast
  obtain r2 w2 where g2: "generateDailyReport demo_platform \<lparr>model = None\<rparr> ''A'' None demo_world = (Inr r2, w2)"
    using generateDailyReport_found [OF demo_user_A] by blast
  obtain r3 w3 where g3: "generateWeeklyReport demo_platform \<lparr>model = None\<rparr> ''A'' (Some 0) demo_world = (Inr r3, w3)"
    using generateWeeklyReport_found [OF demo_user_A] by blast
  obtain r4 w4 where g4: "generateWeeklyReport demo_platform \<lparr>model = None\<rparr> ''A'' None demo_world = (Inr r4, w4)"
    using generateWeeklyReport_found [OF demo_user_A] by blast
  note daily = overdue_ignores_window [where pf = demo_platform and svc = "\<lparr>model = None\<rparr>"
      and userId = "''A''" and w = demo_world and date = "Some 0" and r = r1 and w' = w1
      and ?date1.0 = "Some 0" and ?r1.0 = r1 and ?w1.0 = w1
      and ?date2.0 = None and ?r2.0 = r2 and ?w2.0 = w2]
  note weekly = overdue_ignores_window [where pf = demo_platform and svc = "\<lparr>model = None\<rparr>"
      and userId = "''A''" and w = demo_world and date = "Some 0" and r = r3 and w' = w3
      and ?date1.0 = "Some 0" and ?r1.0 = r3 and ?w1.0 = w3
      and ?date2.0 = None and ?r2.0 = r4 and ?w2.0 = w4]
  have c: "clock demo_world = 1793622600000"
    by (simp add: demo_world_def)
  from daily g1 have "overdue (data r1)
      = length (filter (\<lambda>t. t_dueDate t \<noteq> None \<and> the (t_dueDate t) < clock demo_world \<and> t_status t \<noteq> ''DONE'')
                      (findTasks ''A'' (findProjectIds ''A'' demo_world) demo_world))"
    by blast
  then have o1: "overdue (data r1) = 1"
    by (simp add: demo_tasks_A c demo_task_def)
  from daily g1 g2 have o2: "overdue (data r1) = overdue (data r2)"
    by blast
  from weekly g3 have "overdue (data r3)
      = length (filter (\<lambda>t. t_dueDate t \<noteq> None \<and> the (t_dueDate t) < clock demo_world \<and> t_status t \<noteq> ''DONE'')
                      (findTasks ''A'' (findProjectIds ''A'' demo_world) demo_world))"
    by blast
  then have o3: "overdue (data r3) = 1"
    by (simp add: demo_tasks_A c demo_task_def)
  from weekly g3 g4 have o4: "overdue (data r3) = overdue (data r4)"
    by blast
  from o1 o2 o3 o4 g1 g2 g3 g4 show ?thesis
    by simp
qed

text \<open>
  C7. A weekly report whose end date is \<open>E\<close> (the date asked for, or the clock's reading
  when none is given) counts as completed the tasks that are DONE and whose \<open>updatedAt\<close>
  lies in the window, both bounds included. The window starts at the local midnight of
  the calendar day seven days before \<open>E\<close>'s and ends at the last millisecond of \<open>E\<close>'s
  local day, under the zone's own offsets (daylight saving included). In a zone whose
  offsets stay within a day of UTC the window is not empty, and a DONE task whose
  \<open>updatedAt\<close> is exactly the window's last millisecond is counted.
\<close>

theorem weekly_window_end_inclusive:
  "(generateWeeklyReport pf svc userId weekEndDate w = (Inr r, w')
      \<and> E = (case weekEndDate of Some d \<Rightarrow> d | None \<Rightarrow> clock w) \<longrightarrow>
      completed (data r)
        = length (filter (\<lambda>t. t_status t = ''DONE''
                              \<and> setHours_0_0_0_0 pf (setDate_minus7 pf E) \<le> t_updatedAt t
                              \<and> t_updatedAt t \<le> setHours_23_59_59_999 pf E)
                    (findTasks userId (findProjectIds userId w) w)))
   \<and> setDate_minus7 pf E = UTC pf (LocalTime pf E - 7 * msPerDay)
   \<and> (\<exists>m. setHours_0_0_0_0 pf d = UTC pf m \<and> m mod msPerDay = 0
           \<and> m \<le> LocalTime pf d \<and> LocalTime pf d < m + msPerDay)
   \<and> (\<exists>m. setHours_23_59_59_999 pf d = UTC pf m \<and> m mod msPerDay = msPerDay - 1
           \<and> LocalTime pf d \<le> m \<and> m < LocalTime pf d + msPerDay)
   \<and> ((\<forall>x. \<bar>tzaUTC pf x\<bar> \<le> msPerDay \<and> \<bar>tzaLocal pf x\<bar> \<le> msPerDay) \<longrightarrow>
        setHours_0_0_0_0 pf (setDate_minus7 pf E) \<le> setHours_23_59_59_999 pf E)
   \<and> ((\<forall>x. \<bar>tzaUTC pf x\<bar> \<le> msPerDay \<and> \<bar>tzaLocal pf x\<bar> \<le> msPerDay)
        \<and> t_status t = ''DONE'' \<and> t_updatedAt t = setHours_23_59_59_999 pf E \<longrightarrow>
        completed (calculateStats pf (t # ts) (setHours_0_0_0_0 pf (setDate_minus7 pf E))
                     (setHours_23_59_59_999 pf E) now)
          = completed (calculateStats pf ts (setHours_0_0_0_0 pf (setDate_minus7 pf E))
                         (setHours_23_59_59_999 pf E) now) + 1)
   \<and> ((\<forall>x. \<bar>tzaUTC pf x\<bar> \<le> msPerDay \<and> \<bar>tzaLocal pf x\<bar> \<le> msPerDay)
        \<and> generateWeeklyReport pf svc userId weekEndDate w = (Inr r, w')
        \<and> E = (case weekEndDate of Some d \<Rightarrow> d | None \<Rightarrow> clock w)
        \<and> t \<in> set (findTasks userId (findProjectIds userId w) w)
        \<and> t_status t = ''DONE'' \<and> t_updatedAt t = setHours_23_59_59_999 pf E \<longrightarrow>
        0 < completed (data r))"
proof (intro conjI impI)
  assume "generateWeeklyReport pf svc userId weekEndDate w = (Inr r, w')
      \<and> E = (case weekEndDate of Some d \<Rightarrow> d | None \<Rightarrow> clock w)"
  then have "data r = calculateStats pf (findTasks userId (findProjectIds userId w) w)
                         (setHours_0_0_0_0 pf (setDate_minus7 pf E)) (setHours_23_59_59_999 pf E) (clock w)"
    by (auto dest: generateWeeklyReport_data)
  then show "completed (data r)
        = length (filter (\<lambda>t. t_status t = ''DONE''
                              \<and> setHours_0_0_0_0 pf (setDate_minus7 pf E) \<le> t_updatedAt t
                              \<and> t_updatedAt t \<le> setHours_23_59_59_999 pf E)
                    (findTasks userId (findProjectIds userId w) w))"
    by (simp add: calculateStats_def)
next
  show "setDate_minus7 pf E = UTC pf (LocalTime pf E - 7 * msPerDay)"
    by (simp add: setDate_minus7_def seven_days_earlier)
next
  have "setHours_0_0_0_0 pf d = UTC pf (MakeDate (Day (LocalTime pf d)) 0)"
    by (simp add: setHours_0_0_0_0_def)
  with local_midnight [of "LocalTime pf d"]
  show "\<exists>m. setHours_0_0_0_0 pf d = UTC pf m \<and> m mod msPerDay = 0
           \<and> m \<le> LocalTime pf d \<and> LocalTime pf d < m + msPerDay"
    by (intro exI [where x = "MakeDate (Day (LocalTime pf d)) 0"]) simp
next
  have "setHours_23_59_59_999 pf d = UTC pf (MakeDate (Day (LocalTime pf d)) 86399999)"
    by (simp add: setHours_23_59_59_999_def)
  with local_end_of_day [of "LocalTime pf d"]
  show "\<exists>m. setHours_23_59_59_999 pf d = UTC pf m \<and> m mod msPerDay = msPerDay - 1
           \<and> LocalTime pf d \<le> m \<and> m < LocalTime pf d + msPerDay"
    by (intro exI [where x = "MakeDate (Day (LocalTime pf d)) 86399999"]) simp
next
  assume "\<forall>x. \<bar>tzaUTC pf x\<bar> \<le> msPerDay \<and> \<bar>tzaLocal pf x\<bar> \<le> msPerDay"
  then show "setHours_0_0_0_0 pf (setDate_minus7 pf E) \<le> setHours_23_59_59_999 pf E"
    by (rule week_start_le_end)
next
  assume a: "(\<forall>x. \<bar>tzaUTC pf x\<bar> \<le> msPerDay \<and> \<bar>tzaLocal pf x\<bar> \<le> msPerDay)
        \<and> t_status t = ''DONE'' \<and> t_updatedAt t = setHours_23_59_59_999 pf E"
  then have "setHours_0_0_0_0 pf (setDate_minus7 pf E) \<le> setHours_23_59_59_999 pf E"
    by (blast intro: week_start_le_end)
  with a show "completed (calculateStats pf (t # ts) (setHours_0_0_0_0 pf (setDate_minus7 pf E))
                     (setHours_23_59_59_999 pf E) now)
          = completed (calculateStats pf ts (setHours_0_0_0_0 pf (setDate_minus7 pf E))
                         (setHours_23_59_59_999 pf E) now) + 1"
    by (simp add: calculateStats_def)
next
  assume a: "(\<forall>x. \<bar>tzaUTC pf x\<bar> \<le> msPerDay \<and> \<bar>tzaLocal pf x\<bar> \<le> msPerDay)
        \<and> generateWeeklyReport pf svc userId weekEndDate w = (Inr r, w')
        \<and> E = (case weekEndDate of Some d \<Rightarrow> d | None \<Rightarrow> clock w)
        \<and> t \<in> set (findTasks userId (findProjectIds userId w) w)
        \<and> t_status t = ''DONE'' \<and> t_updatedAt t = setHours_23_59_59_999 pf E"
  then have le: "setHours_0_0_0_0 pf (setDate_minus7 pf E) \<le> setHours_23_59_59_999 pf E"
    by (blast intro: week_start_le_end)
  from a have "data r = calculateStats pf (findTasks userId (findProjectIds userId w) w)
                         (setHours_0_0_0_0 pf (setDate_minus7 pf E)) (setHours_23_59_59_999 pf E) (clock w)"
    by (auto dest: generateWeeklyReport_data)
  then have c: "completed (data r)
        = length (filter (\<lambda>t. t_status t = ''DONE''
                              \<and> setHours_0_0_0_0 pf (setDate_minus7 pf E) \<le> t_updatedAt t
                              \<and> t_updatedAt t \<le> setHours_23_59_59_999 pf E)
                    (findTasks userId (findProjectIds userId w) w))"
    by (simp add: calculateStats_def)
  from a le have "t \<in> set (filter (\<lambda>t. t_status t = ''DONE''
                              \<and> setHours_0_0_0_0 pf (setDate_minus7 pf E) \<le> t_updatedAt t
                              \<and> t_updatedAt t \<le> setHours_23_59_59_999 pf E)
                    (findTasks userId (findProjectIds userId w) w))"
    by simp
  then have "0 < length (filter (\<lambda>t. t_status t = ''DONE''
                              \<and> setHours_0_0_0_0 pf (setDate_minus7 pf E) \<le> t_updatedAt t
                              \<and> t_updatedAt t \<le> setHours_23_59_59_999 pf E)
                    (findTasks userId (findProjectIds userId w) w))"
    by (rule length_pos_if_in_set)
  with c show "0 < completed (data r)"
    by simp
qed

theorem weekly_window_end_inclusive_witness:
  "(\<forall>x. \<bar>tzaUTC demo_platform x\<bar> \<le> msPerDay \<and> \<bar>tzaLocal demo_platform x\<bar> \<le> msPerDay)
   \<and> setHours_0_0_0_0 demo_platform (setDate_minus7 demo_platform 1793622600000) = 1792987200000
   \<and> setHours_23_59_59_999 demo_platform 1793622600000 = 1793681999999
   \<and> setHours_23_59_59_999 demo_platform 1793507400000 = 1793595599999
   \<and> (\<exists>r w'. generateWeeklyReport demo_platform \<lparr>model = None\<rparr> ''A'' (Some 1793622600000) demo_world = (Inr r, w')
          \<and> completed (data r) = 2)
   \<and> (\<exists>r w'. generateWeeklyReport demo_platform \<lparr>model = None\<rparr> ''A'' None demo_world = (Inr r, w')
          \<and> completed (data r) = 2)
   \<and> demo_task ''t4'' ''DONE'' None 1793681999999
        \<in> set (findTasks ''A'' (findProjectIds ''A'' demo_world) demo_world)
   \<and> completed (calculateStats demo_platform [demo_task ''t4'' ''DONE'' None 1793681999999]
                   (setHours_0_0_0_0 demo_platform (setDate_minus7 demo_platform 1793622600000))
                   (setHours_23_59_59_999 demo_platform 1793622600000) 0) = 1"
proof -
  have b: "\<forall>x. \<bar>tzaUTC demo_platform x\<bar> \<le> msPerDay \<and> \<bar>tzaLocal demo_platform x\<bar> \<le> msPerDay"
    by (simp add: demo_platform_def msPerDay_def)
  have s: "setHours_0_0_0_0 demo_platform (setDate_minus7 demo_platform 1793622600000) = 1792987200000"
    by (simp add: setHours_0_0_0_0_def setDate_minus7_def UTC_def LocalTime_def MakeDate_def Day_def
        TimeWithinDay_def msPerDay_def demo_platform_def)
  have e: "setHours_23_59_59_999 demo_platform 1793622600000 = 1793681999999"
    by (simp add: setHours_23_59_59_999_def UTC_def LocalTime_def MakeDate_def Day_def
        msPerDay_def demo_platform_def)
  have long_day: "setHours_23_59_59_999 demo_platform 1793507400000 = 1793595599999"
    by (simp add: setHours_23_59_59_999_def UTC_def LocalTime_def MakeDate_def Day_def
        msPerDay_def demo_platform_def)
  have c: "clock demo_world = 1793622600000"
    by (simp add: demo_world_def)
  have d: "t_status (demo_task ''t4'' ''DONE'' None 1793681999999) = ''DONE''
     \<and> t_updatedAt (demo_task ''t4'' ''DONE'' None 1793681999999) = setHours_23_59_59_999 demo_platform 1793622600000"
    by (simp add: e demo_task_def)
  have mem: "demo_task ''t4'' ''DONE'' None 1793681999999
        \<in> set (findTasks ''A'' (findProjectIds ''A'' demo_world) demo_world)"
    by (simp add: demo_tasks_A)
  obtain r1 w1 where g1: "generateWeeklyReport demo_platform \<lparr>model = None\<rparr> ''A'' (Some 1793622600000) demo_world = (Inr r1, w1)"
    using generateWeeklyReport_found [OF demo_user_A] by blast
  obtain r2 w2 where g2: "generateWeeklyReport demo_platform \<lparr>model = None\<rparr> ''A'' None demo_world = (Inr r2, w2)"
    using generateWeeklyReport_found [OF demo_user_A] by blast
  note given = weekly_window_end_inclusive [where pf = demo_platform and svc = "\<lparr>model = None\<rparr>"
      and userId = "''A''" and weekEndDate = "Some 1793622600000" and E = 1793622600000
      and w = demo_world and r = r1 and w' = w1
      and t = "demo_task ''t4'' ''DONE'' None 1793681999999" and ts = "[]" and now = 0]
  note default = weekly_window_end_inclusive [where pf = demo_platform and svc = "\<lparr>model = None\<rparr>"
      and userId = "''A''" and weekEndDate = None and E = 1793622600000
      and w = demo_world and r = r2 and w' = w2
      and t = "demo_task ''t4'' ''DONE'' None 1793681999999" and ts = "[]" and now = 0]
  from given g1 have "completed (data r1)
        = length (filter (\<lambda>t. t_status t = ''DONE''
                              \<and> setHours_0_0_0_0 demo_platform (setDate_minus7 demo_platform 1793622600000) \<le> t_updatedAt t
                              \<and> t_updatedAt t \<le> setHours_23_59_59_999 demo_platform 1793622600000)
                    (findTasks ''A'' (findProjectIds ''A'' demo_world) demo_world))"
    by simp
  then have c1: "completed (data r1) = 2"
    by (simp add: demo_tasks_A s e demo_task_def)
  from default g2 c have "completed (data r2)
        = length (filter (\<lambda>t. t_status t = ''DONE''
                              \<and> setHours_0_0_0_0 demo_platform (setDate_minus7 demo_platform 1793622600000) \<le> t_updatedAt t
                              \<and> t_updatedAt t \<le> setHours_23_59_59_999 demo_platform 1793622600000)
                    (findTasks ''A'' (findProjectIds ''A'' demo_world) demo_world))"
    by simp
  then have c2: "completed (data r2) = 2"
    by (simp add: demo_tasks_A s e demo_task_def)
  from given b d have "completed (calculateStats demo_platform [demo_task ''t4'' ''DONE'' None 1793681999999]
                   (setHours_0_0_0_0 demo_platform (setDate_minus7 demo_platform 1793622600000))
                   (setHours_23_59_59_999 demo_platform 1793622600000) 0)
          = completed (calculateStats demo_platform []
                   (setHours_0_0_0_0 demo_platform (setDate_minus7 demo_platform 1793622600000))
                   (setHours_23_59_59_999 demo_platform 1793622600000) 0) + 1"
    by blast
  then have one: "completed (calculateStats demo_platform [demo_task ''t4'' ''DONE'' None 1793681999999]
                   (setHours_0_0_0_0 demo_platform (setDate_minus7 demo_platform 1793622600000))
                   (setHours_23_59_59_999 demo_platform 1793622600000) 0) = 1"
    by (simp add: calculateStats_def)
  from b s e long_day g1 c1 g2 c2 mem one show ?thesis
    by blast
qed

text \<open>
  C6, as amended. When the user cannot be found, the daily and the weekly send do not
  return quietly: report generation throws ``User not found'' before the send's own
  lookup, and the send passes the error on, with the state as it was (no report stored,
  no mail handed over).
\<close>

theorem send_report_email_missing_user:
  "findUniqueUser userId w = None \<longrightarrow>
     sendDailyReportEmail pf svc userId w = (Inl (Error ''User not found''), w)
     \<and> sendWeeklyReportEmail pf svc userId w = (Inl (Error ''User not found''), w)"
  by (simp add: sendDailyReportEmail_def sendWeeklyReportEmail_def
      generateDailyReport_missing generateWeeklyReport_missing)

theorem send_report_email_missing_user_witness:
  "findUniqueUser ''ghost'' demo_world = None
   \<and> sendDailyReportEmail demo_platform failing_service ''ghost'' demo_world
       = (Inl (Error ''User not found''), demo_world)
   \<and> sendWeeklyReportEmail demo_platform failing_service ''ghost'' demo_world
       = (Inl (Error ''User not found''), demo_world)"
  using send_report_email_missing_user [of "''ghost''" demo_world demo_platform failing_service]
    demo_user_ghost
  by simp

text \<open>
  C6 as stated fails: for a user id that is not in the store, neither send returns
  normally.
\<close>

theorem send_report_email_no_op_counterexample:
  "findUniqueUser ''ghost'' demo_world = None
   \<and> fst (sendDailyReportEmail demo_platform \<lparr>model = None\<rparr> ''ghost'' demo_world) \<noteq> Inr ()
   \<and> fst (sendWeeklyReportEmail demo_platform \<lparr>model = None\<rparr> ''ghost'' demo_world) \<noteq> Inr ()
   \<and> fst (sendDailyReportEmail demo_platform \<lparr>model = None\<rparr> ''ghost'' demo_world) = Inl (Error ''User not found'')
   \<and> fst (sendWeeklyReportEmail demo_platform \<lparr>model = None\<rparr> ''ghost'' demo_world) = Inl (Error ''User not found'')"
  by (simp add: sendDailyReportEmail_def sendWeeklyReportEmail_def generateDailyReport_def
      generateWeeklyReport_def Let_def demo_user_ghost)

section \<open>Properties of the scheduler\<close>

lemma dailyIteration_step:
  "dailyIteration rs u (s, f, w) =
     (case sendDaily rs (u_id u) w of
        (r, w1) \<Rightarrow>
          (if isl r then (s, f + 1, w1\<lparr>logs := logs w1 @ [dailyLogLine u r]\<rparr>)
           else (s + 1, f, w1\<lparr>logs := logs w1 @ [dailyLogLine u r]\<rparr>)))"
  by (simp add: dailyIteration_def try_catch_def dailyLogLine_def split: prod.splits sum.splits)

lemma weeklyIteration_step:
  "weeklyIteration rs u (s, f, w) =
     (case sendWeekly rs (u_id u) w of
        (r, w1) \<Rightarrow>
          (if isl r then (s, f + 1, w1\<lparr>logs := logs w1 @ [weeklyLogLine u r]\<rparr>)
           else (s + 1, f, w1\<lparr>logs := logs w1 @ [weeklyLogLine u r]\<rparr>)))"
  by (simp add: weeklyIteration_def try_catch_def weeklyLogLine_def split: prod.splits sum.splits)

lemma fold_dailyIteration:
  "attemptAll (sendDaily rs) dailyLogLine us w = (outs, w2) \<Longrightarrow>
     fold (dailyIteration rs) us (s, f, w)
       = (s + length (filter (\<lambda>r. \<not> isl r) outs), f + length (filter isl outs), w2)"
proof (induction us arbitrary: s f w outs w2)
  case Nil
  then show ?case by simp
next
  case (Cons u us)
  obtain r w1 where send: "sendDaily rs (u_id u) w = (r, w1)"
    by (cases "sendDaily rs (u_id u) w")
  obtain outs' where rest: "attemptAll (sendDaily rs) dailyLogLine us (w1\<lparr>logs := logs w1 @ [dailyLogLine u r]\<rparr>) = (outs', w2)"
    and outs: "outs = r # outs'"
    using Cons.prems send by (auto split: prod.splits)
  show ?case
  proof (cases "isl r")
    case True
    with send have "dailyIteration rs u (s, f, w) = (s, f + 1, w1\<lparr>logs := logs w1 @ [dailyLogLine u r]\<rparr>)"
      by (simp add: dailyIteration_step)
    with True outs Cons.IH [OF rest, of s "f + 1"] show ?thesis
      by simp
  next
    case False
    with send have "dailyIteration rs u (s, f, w) = (s + 1, f, w1\<lparr>logs := logs w1 @ [dailyLogLine u r]\<rparr>)"
      by (simp add: dailyIteration_step)
    with False outs Cons.IH [OF rest, of "s + 1" f] show ?thesis
      by simp
  qed
qed

lemma fold_weeklyIteration:
  "attemptAll (sendWeekly rs) weeklyLogLine us w = (outs, w2) \<Longrightarrow>
     fold (weeklyIteration rs) us (s, f, w)
       = (s + length (filter (\<lambda>r. \<not> isl r) outs), f + length (filter isl outs), w2)"
proof (induction us arbitrary: s f w outs w2)
  case Nil
  then show ?case by simp
next
  case (Cons u us)
  obtain r w1 where send: "sendWeekly rs (u_id u) w = (r, w1)"
    by (cases "sendWeekly rs (u_id u) w")
  obtain outs' where rest: "attemptAll (sendWeekly rs) weeklyLogLine us (w1\<lparr>logs := logs w1 @ [weeklyLogLine u r]\<rparr>) = (outs', w2)"
    and outs: "outs = r # outs'"
    using Cons.prems send by (auto split: prod.splits)
  show ?case
  proof (cases "isl r")
    case True
    with send have "weeklyIteration rs u (s, f, w) = (s, f + 1, w1\<lparr>logs := logs w1 @ [weeklyLogLine u r]\<rparr>)"
      by (simp add: weeklyIteration_step)
    with True outs Cons.IH [OF rest, of s "f + 1"] show ?thesis
      by simp
  next
    case False
    with send have "weeklyIteration rs u (s, f, w) = (s + 1, f, w1\<lparr>logs := logs w1 @ [weeklyLogLine u r]\<rparr>)"
      by (simp add: weeklyIteration_step)
    with False outs Cons.IH [OF rest, of "s + 1" f] show ?thesis
      by simp
  qed
qed

lemma length_attemptAll: "length (fst (attemptAll send line us w)) = length us"
proof (induction us arbitrary: w)
  case Nil
  show ?case by simp
next
  case (Cons u us)
  obtain r w1 where send: "send (u_id u) w = (r, w1)"
    by (cases "send (u_id u) w")
  obtain rs w2 where rest: "attemptAll send line us (w1\<lparr>logs := logs w1 @ [line u r]\<rparr>) = (rs, w2)"
    by (cases "attemptAll send line us (w1\<lparr>logs := logs w1 @ [line u r]\<rparr>)")
  from Cons.IH [of "w1\<lparr>logs := logs w1 @ [line u r]\<rparr>"] send rest show ?case
    by simp
qed

lemma outbox_attemptAll:
  assumes recorded: "\<forall>uid x. outbox (snd (send uid x)) = outbox x @ [mk uid]"
  shows "outbox (snd (attemptAll send line us w)) = outbox w @ map (\<lambda>u. mk (u_id u)) us"
proof (induction us arbitrary: w)
  case Nil
  show ?case by simp
next
  case (Cons u us)
  obtain r w1 where send: "send (u_id u) w = (r, w1)"
    by (cases "send (u_id u) w")
  obtain rs w2 where rest: "attemptAll send line us (w1\<lparr>logs := logs w1 @ [line u r]\<rparr>) = (rs, w2)"
    by (cases "attemptAll send line us (w1\<lparr>logs := logs w1 @ [line u r]\<rparr>)")
  from recorded send have "outbox w1 = outbox w @ [mk (u_id u)]"
    by (metis snd_conv)
  with send rest Cons.IH [of "w1\<lparr>logs := logs w1 @ [line u r]\<rparr>"] show ?case
    by simp
qed

lemma count_partition: "length (filter (\<lambda>r. \<not> P r) xs) + length (filter P xs) = length xs"
  by (induction xs) simp_all

lemma daily_batch:
  assumes "attemptAll (sendDaily rs) dailyLogLine (findVerifiedUsers w) w = (outs, w2)"
  shows "generateDailyReportsForAllUsers rs w
      = (\<lparr>success = length (filter (\<lambda>r. \<not> isl r) outs), failed = length (filter isl outs)\<rparr>,
         w2\<lparr>logs := logs w2 @ [Info (''Daily reports completed: ''
                                      @ show_nat (length (filter (\<lambda>r. \<not> isl r) outs)) @ '' success, ''
                                      @ show_nat (length (filter isl outs)) @ '' failed'')]\<rparr>)"
  using fold_dailyIteration [OF assms, of 0 0]
  by (simp add: generateDailyReportsForAllUsers_def Let_def)

lemma weekly_batch:
  assumes "attemptAll (sendWeekly rs) weeklyLogLine (findVerifiedUsers w) w = (outs, w2)"
  shows "generateWeeklyReportsForAllUsers rs w
      = (\<lparr>success = length (filter (\<lambda>r. \<not> isl r) outs), failed = length (filter isl outs)\<rparr>,
         w2\<lparr>logs := logs w2 @ [Info (''Weekly reports completed: ''
                                      @ show_nat (length (filter (\<lambda>r. \<not> isl r) outs)) @ '' success, ''
                                      @ show_nat (length (filter isl outs)) @ '' failed'')]\<rparr>)"
  using fold_weeklyIteration [OF assms, of 0 0]
  by (simp add: generateWeeklyReportsForAllUsers_def Let_def)

lemma demo_daily_attempts:
  "fst (attemptAll (sendDaily (mockReportService ''B'')) dailyLogLine (findVerifiedUsers demo_world) demo_world)
     = [Inr (), Inl (Error ''send failed''), Inr ()]"
  by code_simp

lemma demo_weekly_attempts:
  "fst (attemptAll (sendWeekly (mockReportService ''B'')) weeklyLogLine (findVerifiedUsers demo_world) demo_world)
     = [Inr (), Inl (Error ''send failed''), Inr ()]"
  by code_simp

lemma mock_send_recorded:
  "\<forall>uid x. outbox (snd (mock_send bad uid x))
      = outbox x @ [\<lparr>mail_to = uid, mail_name = [], mail_summary = [], mail_stats = None, mail_rows = []\<rparr>]"
  by (simp add: mock_send_def)

lemma demo_verified:
  "findVerifiedUsers demo_world = [demo_user ''A'' True, demo_user ''B'' True, demo_user ''C'' True]"
  by (simp add: findVerifiedUsers_def demo_world_def demo_user_def)

lemma registry_after_two_starts:
  "start (start (newSchedulerService, [], w)) =
     (\<lparr>dailyJob = Some 2, weeklyJob = Some 3\<rparr>,
      [\<lparr>expression = ''0 18 * * *'', callback = DailyReports, running = True\<rparr>,
       \<lparr>expression = ''0 18 * * 5'', callback = WeeklyReports, running = True\<rparr>,
       \<lparr>expression = ''0 18 * * *'', callback = DailyReports, running = True\<rparr>,
       \<lparr>expression = ''0 18 * * 5'', callback = WeeklyReports, running = True\<rparr>],
      w\<lparr>logs := logs w @ [Info ''Scheduler started: Daily reports at 6 PM, Weekly reports on Fridays at 6 PM'',
                           Info ''Scheduler started: Daily reports at 6 PM, Weekly reports on Fridays at 6 PM'']\<rparr>)"
  by (simp add: start_def cron_schedule_def newSchedulerService_def)

text \<open>
  C2. A batch run, daily or weekly, is the run that attempts the send for every verified
  user in order, whatever the earlier sends did: the state it returns is the state after
  all these sends (with the closing log line), there is one result per user, \<open>failed\<close>
  is the number of sends that threw and \<open>success\<close> the number that returned, and the
  two add up to the number of verified users. So when every call of the send leaves a
  record of the user in the outbox, whether it returns or throws, the outbox after the
  run has the records of all verified users in order. When the results for three users
  are ``returned, threw, returned'', the counts are 2 and 1.
\<close>

theorem batch_isolates_failures:
  "(case attemptAll (sendDaily rs) dailyLogLine (findVerifiedUsers w) w of
      (outs, w2) \<Rightarrow>
        generateDailyReportsForAllUsers rs w
          = (\<lparr>success = length (filter (\<lambda>r. \<not> isl r) outs), failed = length (filter isl outs)\<rparr>,
             w2\<lparr>logs := logs w2 @ [Info (''Daily reports completed: ''
                                          @ show_nat (length (filter (\<lambda>r. \<not> isl r) outs)) @ '' success, ''
                                          @ show_nat (length (filter isl outs)) @ '' failed'')]\<rparr>)
        \<and> length outs = length (findVerifiedUsers w))
   \<and> (case attemptAll (sendWeekly rs) weeklyLogLine (findVerifiedUsers w) w of
        (outs, w2) \<Rightarrow>
          generateWeeklyReportsForAllUsers rs w
            = (\<lparr>success = length (filter (\<lambda>r. \<not> isl r) outs), failed = length (filter isl outs)\<rparr>,
               w2\<lparr>logs := logs w2 @ [Info (''Weekly reports completed: ''
                                            @ show_nat (length (filter (\<lambda>r. \<not> isl r) outs)) @ '' success, ''
                                            @ show_nat (length (filter isl outs)) @ '' failed'')]\<rparr>)
          \<and> length outs = length (findVerifiedUsers w))
   \<and> success (fst (generateDailyReportsForAllUsers rs w)) + failed (fst (generateDailyReportsForAllUsers rs w))
       = length (findVerifiedUsers w)
   \<and> failed (fst (generateDailyReportsForAllUsers rs w))
       = length (filter isl (fst (attemptAll (sendDaily rs) dailyLogLine (findVerifiedUsers w) w)))
   \<and> success (fst (generateWeeklyReportsForAllUsers rs w)) + failed (fst (generateWeeklyReportsForAllUsers rs w))
       = length (findVerifiedUsers w)
   \<and> failed (fst (generateWeeklyReportsForAllUsers rs w))
       = length (filter isl (fst (attemptAll (sendWeekly rs) weeklyLogLine (findVerifiedUsers w) w)))
   \<and> ((\<forall>uid x. outbox (snd (sendDaily rs uid x)) = outbox x @ [mk uid]) \<longrightarrow>
        outbox (snd (generateDailyReportsForAllUsers rs w))
          = outbox w @ map (\<lambda>u. mk (u_id u)) (findVerifiedUsers w))
   \<and> ((\<forall>uid x. outbox (snd (sendWeekly rs uid x)) = outbox x @ [mk uid]) \<longrightarrow>
        outbox (snd (generateWeeklyReportsForAllUsers rs w))
          = outbox w @ map (\<lambda>u. mk (u_id u)) (findVerifiedUsers w))
   \<and> (fst (attemptAll (sendDaily rs) dailyLogLine (findVerifiedUsers w) w) = [Inr (), Inl e, Inr ()] \<longrightarrow>
        fst (generateDailyReportsForAllUsers rs w) = \<lparr>success = 2, failed = 1\<rparr>)
   \<and> (fst (attemptAll (sendWeekly rs) weeklyLogLine (findVerifiedUsers w) w) = [Inr (), Inl e, Inr ()] \<longrightarrow>
        fst (generateWeeklyReportsForAllUsers rs w) = \<lparr>success = 2, failed = 1\<rparr>)"
proof -
  obtain douts dw where d: "attemptAll (sendDaily rs) dailyLogLine (findVerifiedUsers w) w = (douts, dw)"
    by (cases "attemptAll (sendDaily rs) dailyLogLine (findVerifiedUsers w) w")
  obtain wouts ww where k: "attemptAll (sendWeekly rs) weeklyLogLine (findVerifiedUsers w) w = (wouts, ww)"
    by (cases "attemptAll (sendWeekly rs) weeklyLogLine (findVerifiedUsers w) w")
  note db = daily_batch [OF d]
  note wb = weekly_batch [OF k]
  have dl: "length douts = length (findVerifiedUsers w)"
    using length_attemptAll [of "sendDaily rs" dailyLogLine "findVerifiedUsers w" w] d by simp
  have wl: "length wouts = length (findVerifiedUsers w)"
    using length_attemptAll [of "sendWeekly rs" weeklyLogLine "findVerifiedUsers w" w] k by simp
  have dsum: "success (fst (generateDailyReportsForAllUsers rs w)) + failed (fst (generateDailyReportsForAllUsers rs w))
       = length (findVerifiedUsers w)"
    using count_partition [of isl douts] dl by (simp add: db)
  have wsum: "success (fst (generateWeeklyReportsForAllUsers rs w)) + failed (fst (generateWeeklyReportsForAllUsers rs w))
       = length (findVerifiedUsers w)"
    using count_partition [of isl wouts] wl by (simp add: wb)
  have dbox: "outbox (snd (generateDailyReportsForAllUsers rs w))
          = outbox w @ map (\<lambda>u. mk (u_id u)) (findVerifiedUsers w)"
    if "\<forall>uid x. outbox (snd (sendDaily rs uid x)) = outbox x @ [mk uid]"
    using outbox_attemptAll [OF that, of dailyLogLine "findVerifiedUsers w" w] d by (simp add: db)
  have wbox: "outbox (snd (generateWeeklyReportsForAllUsers rs w))
          = outbox w @ map (\<lambda>u. mk (u_id u)) (findVerifiedUsers w)"
    if "\<forall>uid x. outbox (snd (sendWeekly rs uid x)) = outbox x @ [mk uid]"
    using outbox_attemptAll [OF that, of weeklyLogLine "findVerifiedUsers w" w] k by (simp add: wb)
  have dex: "fst (generateDailyReportsForAllUsers rs w) = \<lparr>success = 2, failed = 1\<rparr>"
    if "fst (attemptAll (sendDaily rs) dailyLogLine (findVerifiedUsers w) w) = [Inr (), Inl e, Inr ()]"
    using that d by (simp add: db)
  have wex: "fst (generateWeeklyReportsForAllUsers rs w) = \<lparr>success = 2, failed = 1\<rparr>"
    if "fst (attemptAll (sendWeekly rs) weeklyLogLine (findVerifiedUsers w) w) = [Inr (), Inl e, Inr ()]"
    using that k by (simp add: wb)
  from d k db wb dl wl dsum wsum dbox wbox dex wex show ?thesis
    by simp
qed

theorem batch_isolates_failures_witness:
  "(\<forall>uid x. outbox (snd (sendDaily (mockReportService ''B'') uid x))
       = outbox x @ [\<lparr>mail_to = uid, mail_name = [], mail_summary = [], mail_stats = None, mail_rows = []\<rparr>])
   \<and> (\<forall>uid x. outbox (snd (sendWeekly (mockReportService ''B'') uid x))
       = outbox x @ [\<lparr>mail_to = uid, mail_name = [], mail_summary = [], mail_stats = None, mail_rows = []\<rparr>])
   \<and> fst (attemptAll (sendDaily (mockReportService ''B'')) dailyLogLine (findVerifiedUsers demo_world) demo_world)
       = [Inr (), Inl (Error ''send failed''), Inr ()]
   \<and> fst (attemptAll (sendWeekly (mockReportService ''B'')) weeklyLogLine (findVerifiedUsers demo_world) demo_world)
       = [Inr (), Inl (Error ''send failed''), Inr ()]
   \<and> fst (generateDailyReportsForAllUsers (mockReportService ''B'') demo_world) = \<lparr>success = 2, failed = 1\<rparr>
   \<and> fst (generateWeeklyReportsForAllUsers (mockReportService ''B'') demo_world) = \<lparr>success = 2, failed = 1\<rparr>
   \<and> map mail_to (outbox (snd (generateDailyReportsForAllUsers (mockReportService ''B'') demo_world)))
       = [''A'', ''B'', ''C'']
   \<and> map mail_to (outbox (snd (generateWeeklyReportsForAllUsers (mockReportService ''B'') demo_world)))
       = [''A'', ''B'', ''C'']"
proof -
  have rd: "\<forall>uid x. outbox (snd (sendDaily (mockReportService ''B'') uid x))
       = outbox x @ [\<lparr>mail_to = uid, mail_name = [], mail_summary = [], mail_stats = None, mail_rows = []\<rparr>]"
    using mock_send_recorded [of "''B''"] by (simp add: mockReportService_def)
  have rw: "\<forall>uid x. outbox (snd (sendWeekly (mockReportService ''B'') uid x))
       = outbox x @ [\<lparr>mail_to = uid, mail_name = [], mail_summary = [], mail_stats = None, mail_rows = []\<rparr>]"
    using mock_send_recorded [of "''B''"] by (simp add: mockReportService_def)
  have empty: "outbox demo_world = []"
    by (simp add: demo_world_def)
  note t = batch_isolates_failures [where rs = "mockReportService ''B''" and w = demo_world
      and e = "Error ''send failed''"
      and mk = "\<lambda>uid. \<lparr>mail_to = uid, mail_name = [], mail_summary = [], mail_stats = None, mail_rows = []\<rparr>"]
  from t demo_daily_attempts have c1: "fst (generateDailyReportsForAllUsers (mockReportService ''B'') demo_world) = \<lparr>success = 2, failed = 1\<rparr>"
    by blast
  from t demo_weekly_attempts have c2: "fst (generateWeeklyReportsForAllUsers (mockReportService ''B'') demo_world) = \<lparr>success = 2, failed = 1\<rparr>"
    by blast
  from t rd have "outbox (snd (generateDailyReportsForAllUsers (mockReportService ''B'') demo_world))
      = outbox demo_world @ map (\<lambda>u. \<lparr>mail_to = u_id u, mail_name = [], mail_summary = [], mail_stats = None, mail_rows = []\<rparr>)
                              (findVerifiedUsers demo_world)"
    by blast
  then have o1: "map mail_to (outbox (snd (generateDailyReportsForAllUsers (mockReportService ''B'') demo_world)))
       = [''A'', ''B'', ''C'']"
    by (simp add: demo_verified empty demo_user_def)
  from t rw have "outbox (snd (generateWeeklyReportsForAllUsers (mockReportService ''B'') demo_world))
      = outbox demo_world @ map (\<lambda>u. \<lparr>mail_to = u_id u, mail_name = [], mail_summary = [], mail_stats = None, mail_rows = []\<rparr>)
                              (findVerifiedUsers demo_world)"
    by blast
  then have o2: "map mail_to (outbox (snd (generateWeeklyReportsForAllUsers (mockReportService ''B'') demo_world)))
       = [''A'', ''B'', ''C'']"
    by (simp add: demo_verified empty demo_user_def)
  from rd rw demo_daily_attempts demo_weekly_attempts c1 c2 o1 o2 show ?thesis
    by blast
qed

text \<open>
  C5 does not hold of \<open>start\<close>: each call registers two new tasks and overwrites the
  handles of the ones before, which keep running. After two calls a firing of the daily
  trigger runs the daily batch twice (and a Friday firing runs each batch twice), so every
  verified user's send is invoked twice; after one call it is invoked once. A \<open>stop\<close>
  after two calls stops the second pair only.
\<close>

theorem start_twice_double_sends:
  "(case start (start (newSchedulerService, [], w)) of
      (this, reg, w2) \<Rightarrow>
        cron_fire rs daily_minute reg w2 = runJob rs DailyReports (runJob rs DailyReports w2)
        \<and> cron_fire rs friday_minute reg w2
            = runJob rs WeeklyReports (runJob rs DailyReports (runJob rs WeeklyReports (runJob rs DailyReports w2))))
   \<and> (case start (start (newSchedulerService, [], demo_world)) of
        (this, reg, w2) \<Rightarrow>
          map mail_to (outbox (cron_fire (mockReportService ''nobody'') daily_minute reg w2))
            = [''A'', ''B'', ''C'', ''A'', ''B'', ''C''])
   \<and> (case start (newSchedulerService, [], demo_world) of
        (this, reg, w1) \<Rightarrow>
          map mail_to (outbox (cron_fire (mockReportService ''nobody'') daily_minute reg w1))
            = [''A'', ''B'', ''C''])
   \<and> (case stop (start (start (newSchedulerService, [], w))) of
        (this, reg, w3) \<Rightarrow>
          map running reg = [True, True, False, False] \<and> dailyJob this = None \<and> weeklyJob this = None)"
proof (intro conjI)
  show "case start (start (newSchedulerService, [], w)) of
      (this, reg, w2) \<Rightarrow>
        cron_fire rs daily_minute reg w2 = runJob rs DailyReports (runJob rs DailyReports w2)
        \<and> cron_fire rs friday_minute reg w2
            = runJob rs WeeklyReports (runJob rs DailyReports (runJob rs WeeklyReports (runJob rs DailyReports w2)))"
    by (simp add: registry_after_two_starts cron_fire_def daily_minute_def friday_minute_def)
next
  show "case start (start (newSchedulerService, [], demo_world)) of
        (this, reg, w2) \<Rightarrow>
          map mail_to (outbox (cron_fire (mockReportService ''nobody'') daily_minute reg w2))
            = [''A'', ''B'', ''C'', ''A'', ''B'', ''C'']"
    by code_simp
next
  show "case start (newSchedulerService, [], demo_world) of
        (this, reg, w1) \<Rightarrow>
          map mail_to (outbox (cron_fire (mockReportService ''nobody'') daily_minute reg w1))
            = [''A'', ''B'', ''C'']"
    by code_simp
next
  show "case stop (start (start (newSchedulerService, [], w))) of
        (this, reg, w3) \<Rightarrow>
          map running reg = [True, True, False, False] \<and> dailyJob this = None \<and> weeklyJob this = None"
    by (simp add: registry_after_two_starts stop_def task_stop_def)
qed

end
